theory Spec2Isabelle
  imports Complex_Main "HOL-Library.AList"
begin

section \<open>Values\<close>

text \<open>
  A \<^verbatim>\<open>np.float64\<close> is modelled as a real number or \<open>NaN\<close>.  Rounding and overflow of
  the binary representation are not modelled: arithmetic on numbers is exact.  \<open>NaN\<close>
  stands for every non-finite float, so a division by zero (which numpy answers with a
  warning and \<^verbatim>\<open>nan\<close> or \<^verbatim>\<open>inf\<close>, never with an exception) yields \<open>NaN\<close>.
  A Python value that may be \<^verbatim>\<open>None\<close> is an \<open>option\<close>.

  A theorem that states which expression of the source a result is the value of holds
  however the operations round.  A theorem whose proof uses a law of the real field
  (cancellation of a factor, the sign of a product, an algebraic identity) is a statement
  about exact arithmetic only, and the text before it says so.
\<close>

datatype flt = NaN | Num real

datatype error =
    ValueError string
  | TypeError string
  | KeyError string
  | IndexError
  | NoneTypeError
  | NanToIntError
  | FloatParseError string
  | AmbiguousError
  | AttributeError string

text \<open>
  \<open>ValueError\<close> and \<open>TypeError\<close> carry the message the source raises them with.
  \<open>KeyError\<close> (a missing dictionary key or column), \<open>IndexError\<close> (position out of range),
  \<open>NoneTypeError\<close> (the \<^verbatim>\<open>TypeError\<close> of the interpreter for arithmetic on \<^verbatim>\<open>None\<close> or a
  subscript of \<^verbatim>\<open>None\<close>), \<open>FloatParseError\<close> (the \<^verbatim>\<open>ValueError\<close> for a string that is no float), \<open>NanToIntError\<close> (rounding \<^verbatim>\<open>nan\<close> to an integer), \<open>AmbiguousError\<close> (the
  \<^verbatim>\<open>ValueError\<close> of pandas for the truth value of a series) and \<open>AttributeError\<close> are raised
  by the interpreter or the libraries.
\<close>

fun isnan :: "flt \<Rightarrow> bool" where
  "isnan NaN = True"
| "isnan (Num r) = False"

fun lift2 :: "(real \<Rightarrow> real \<Rightarrow> real) \<Rightarrow> flt \<Rightarrow> flt \<Rightarrow> flt" where
  "lift2 f (Num a) (Num b) = Num (f a b)"
| "lift2 f _ _ = NaN"

definition fadd :: "flt \<Rightarrow> flt \<Rightarrow> flt" where
  "fadd = lift2 (+)"

definition fsub :: "flt \<Rightarrow> flt \<Rightarrow> flt" where
  "fsub = lift2 (-)"

definition fmul :: "flt \<Rightarrow> flt \<Rightarrow> flt" where
  "fmul = lift2 (*)"

fun fdiv :: "flt \<Rightarrow> flt \<Rightarrow> flt" where
  "fdiv (Num a) (Num b) = (if b = 0 then NaN else Num (a / b))"
| "fdiv _ _ = NaN"

text \<open>Truth value of a float (\<^verbatim>\<open>nan\<close> is true, zero is false) and of an optional float.\<close>

fun truthy :: "flt \<Rightarrow> bool" where
  "truthy NaN = True"
| "truthy (Num r) = (r \<noteq> 0)"

fun truthy_opt :: "flt option \<Rightarrow> bool" where
  "truthy_opt None = False"
| "truthy_opt (Some v) = truthy v"

section \<open>Building blocks (structures.py)\<close>

text \<open>
  The raw record \<^verbatim>\<open>json\<close> of a building block is a dictionary.  Only its numeric
  entries are read by the operations below: \<open>json k = None\<close> when the key is absent,
  \<open>Some None\<close> when the entry is \<^verbatim>\<open>None\<close>, \<open>Some (Some v)\<close> when it is the float \<open>v\<close>.
\<close>

type_synonym raw = "string \<rightharpoonup> flt option"

record material =
  mat_title :: string
  mat_description :: string
  density :: "flt option"
  poisson_ratio :: "flt option"
  young_modulus :: "flt option"
  mat_id :: int

record position =
  pos_x :: flt
  pos_y :: flt
  pos_z :: flt
  alpha :: flt
  beta :: flt
  gamma :: flt
  reference_system :: string

record building_block =
  bb_id :: int
  title :: string
  description :: string
  bb_position :: position
  bb_material :: "material option"
  json :: raw

datatype bb_type = tubular_section | lumped_mass | distributed_mass

text \<open>\<^verbatim>\<open>BuildingBlock.type\<close>: the dictionary \<^verbatim>\<open>cond\<close> is walked in insertion order.\<close>

definition cond :: "(string \<times> bb_type) list" where
  "cond = [(''bottom_outer_diameter'', tubular_section),
           (''mass'', lumped_mass),
           (''mass_distribution'', distributed_mass)]"

fun type_loop :: "raw \<Rightarrow> (string \<times> bb_type) list \<Rightarrow> error + bb_type" where
  "type_loop j [] = Inl (ValueError ''Could not find supported building block type.'')"
| "type_loop j ((k, t) # ks) =
     (case j k of
        None \<Rightarrow> type_loop j ks
      | Some None \<Rightarrow> type_loop j ks
      | Some (Some v) \<Rightarrow> if \<not> isnan v then Inr t else type_loop j ks)"

definition bb_type_of :: "building_block \<Rightarrow> error + bb_type" where
  "bb_type_of b = type_loop (json b) cond"

text \<open>\<^verbatim>\<open>BuildingBlock.height\<close>\<close>

definition bb_height :: "building_block \<Rightarrow> flt option" where
  "bb_height b = (case json b ''height'' of None \<Rightarrow> None | Some v \<Rightarrow> v)"

text \<open>
  Reading \<^verbatim>\<open>self.json[k]\<close> as an operand of float arithmetic: a missing key raises
  \<^verbatim>\<open>KeyError\<close>, \<^verbatim>\<open>None\<close> raises the interpreter's \<^verbatim>\<open>TypeError\<close>.
\<close>

definition operand :: "raw \<Rightarrow> string \<Rightarrow> error + flt" where
  "operand j k =
     (case j k of
        None \<Rightarrow> Inl (KeyError k)
      | Some None \<Rightarrow> Inl NoneTypeError
      | Some (Some v) \<Rightarrow> Inr v)"

text \<open>The local function \<^verbatim>\<open>_calc_cone_volume\<close> of \<^verbatim>\<open>BuildingBlock.volume\<close>, on numbers and on floats.\<close>

definition cone_volume :: "real \<Rightarrow> real \<Rightarrow> real \<Rightarrow> real" where
  "cone_volume r_bottom r_top height =
     pi * height / 3 * (r_bottom\<^sup>2 + r_bottom * r_top + r_top\<^sup>2)"

definition calc_cone_volume :: "flt \<Rightarrow> flt \<Rightarrow> flt \<Rightarrow> flt" where
  "calc_cone_volume r_bottom r_top height =
     fmul (fdiv (fmul (Num pi) height) (Num 3))
          (fadd (fadd (fmul r_bottom r_bottom) (fmul r_bottom r_top)) (fmul r_top r_top))"

text \<open>Python's \<^verbatim>\<open>round(x)\<close> to the nearest integer, ties to the even one.\<close>

definition rint :: "real \<Rightarrow> int" where
  "rint x = (let f = \<lfloor>x\<rfloor>; d = x - of_int f
             in if d < 1 / 2 then f else if 1 / 2 < d then f + 1
                else if even f then f else f + 1)"

fun round0 :: "flt \<Rightarrow> flt" where
  "round0 NaN = NaN"
| "round0 (Num r) = Num (of_int (rint r))"

text \<open>
  \<^verbatim>\<open>BuildingBlock.volume\<close>.  The two inner radii are computed before the outer ones, so the
  order of the reads (and of the exceptions they may raise) is: bottom diameter, wall
  thickness, top diameter.  The result is \<open>None\<close> for a lumped mass.
\<close>

definition volume_cones :: "raw \<Rightarrow> error + (flt \<times> flt)" where
  "volume_cones j =
     (case operand j ''bottom_outer_diameter'' of Inl e \<Rightarrow> Inl e | Inr bod \<Rightarrow>
      case operand j ''wall_thickness'' of Inl e \<Rightarrow> Inl e | Inr wt \<Rightarrow>
      case operand j ''top_outer_diameter'' of Inl e \<Rightarrow> Inl e | Inr tod \<Rightarrow>
      case operand j ''height'' of Inl e \<Rightarrow> Inl e | Inr h \<Rightarrow>
        (let r_bottom_inner = fsub (fdiv bod (Num 2)) wt;
             r_bottom_outer = fdiv bod (Num 2);
             r_top_inner = fsub (fdiv tod (Num 2)) wt;
             r_top_outer = fdiv tod (Num 2);
             volume_inner_cone = calc_cone_volume r_bottom_inner r_top_inner h;
             volume_outer_cone = calc_cone_volume r_bottom_outer r_top_outer h
         in Inr (volume_outer_cone, volume_inner_cone)))"

definition volume :: "building_block \<Rightarrow> error + flt option" where
  "volume b =
     (case bb_type_of b of
        Inl e \<Rightarrow> Inl e
      | Inr tubular_section \<Rightarrow>
          if truthy_opt (bb_height b) then
            (case volume_cones (json b) of
               Inl e \<Rightarrow> Inl e
             | Inr (volume_outer_cone, volume_inner_cone) \<Rightarrow>
                 Inr (Some (fdiv (fsub volume_outer_cone volume_inner_cone) (Num 1000000000))))
          else Inl (ValueError ''Height data is missing.'')
      | Inr distributed_mass \<Rightarrow>
          if truthy_opt (bb_height b) then
            (case operand (json b) ''volume_distribution'' of
               Inl e \<Rightarrow> Inl e
             | Inr vd \<Rightarrow>
                 (case bb_height b of
                    None \<Rightarrow> Inl NoneTypeError
                  | Some h \<Rightarrow>
                      (case fdiv (fmul vd h) (Num 1000) of
                         NaN \<Rightarrow> Inl NanToIntError
                       | Num q \<Rightarrow> Inr (Some (round0 (Num q))))))
          else Inl (ValueError ''Height data is missing.'')
      | Inr lumped_mass \<Rightarrow> Inr None)"

text \<open>A field is present when its key exists and its value is neither \<^verbatim>\<open>None\<close> nor \<^verbatim>\<open>nan\<close>.\<close>

definition present :: "raw \<Rightarrow> string \<Rightarrow> bool" where
  "present j k = (case j k of Some (Some v) \<Rightarrow> \<not> isnan v | _ \<Rightarrow> False)"

text \<open>The building block of the doctests: only its mass and moments of inertia are numbers.\<close>

definition origin :: position where
  "origin = \<lparr>pos_x = Num 0, pos_y = Num 0, pos_z = Num 0, alpha = Num 0, beta = Num 0,
              gamma = Num 0, reference_system = ''LAT''\<rparr>"

definition doctest_json :: raw where
  "doctest_json =
     [''height'' \<mapsto> Some (Num 0), ''mass_distribution'' \<mapsto> Some NaN,
      ''volume_distribution'' \<mapsto> Some NaN, ''bottom_outer_diameter'' \<mapsto> Some NaN,
      ''top_outer_diameter'' \<mapsto> Some NaN, ''wall_thickness'' \<mapsto> Some NaN,
      ''material'' \<mapsto> Some NaN, ''moment_of_inertia_x'' \<mapsto> Some (Num 1),
      ''moment_of_inertia_y'' \<mapsto> Some (Num 2), ''moment_of_inertia_z'' \<mapsto> Some (Num 3),
      ''mass'' \<mapsto> Some (Num 100)]"

definition doctest_bb :: building_block where
  "doctest_bb = \<lparr>bb_id = 1, title = ''BB_1'', description = [], bb_position = origin,
                  bb_material = None, json = doctest_json\<rparr>"

text \<open>A tubular section given by its two outer diameters, wall thickness and height.\<close>

definition tube_json :: "flt option \<Rightarrow> flt option \<Rightarrow> flt option \<Rightarrow> flt option \<Rightarrow> raw" where
  "tube_json bod tod wt h =
     [''bottom_outer_diameter'' \<mapsto> bod, ''top_outer_diameter'' \<mapsto> tod,
      ''wall_thickness'' \<mapsto> wt, ''height'' \<mapsto> h, ''mass'' \<mapsto> Some NaN,
      ''mass_distribution'' \<mapsto> Some NaN, ''volume_distribution'' \<mapsto> Some NaN]"

definition tube :: "real \<Rightarrow> real \<Rightarrow> real \<Rightarrow> real \<Rightarrow> building_block" where
  "tube bod tod wt h =
     \<lparr>bb_id = 2, title = ''can'', description = [], bb_position = origin, bb_material = None,
      json = tube_json (Some (Num bod)) (Some (Num tod)) (Some (Num wt)) (Some (Num h))\<rparr>"

section \<open>Geometry tables of one turbine (processing.py)\<close>

text \<open>
  Comparisons of floats: every ordering and equality test with \<^verbatim>\<open>nan\<close> is false, and
  \<^verbatim>\<open>!=\<close> with \<^verbatim>\<open>nan\<close> is true.
\<close>

fun flt_lt :: "flt \<Rightarrow> flt \<Rightarrow> bool" where
  "flt_lt (Num a) (Num b) = (a < b)"
| "flt_lt _ _ = False"

fun flt_le :: "flt \<Rightarrow> flt \<Rightarrow> bool" where
  "flt_le (Num a) (Num b) = (a \<le> b)"
| "flt_le _ _ = False"

fun flt_eq :: "flt \<Rightarrow> flt \<Rightarrow> bool" where
  "flt_eq (Num a) (Num b) = (a = b)"
| "flt_eq _ _ = False"

definition flt_gt :: "flt \<Rightarrow> flt \<Rightarrow> bool" where
  "flt_gt a b = flt_lt b a"

definition flt_ge :: "flt \<Rightarrow> flt \<Rightarrow> bool" where
  "flt_ge a b = flt_le b a"

definition flt_ne :: "flt \<Rightarrow> flt \<Rightarrow> bool" where
  "flt_ne a b = (\<not> flt_eq a b)"

text \<open>
  A row of a table of cans, as \<^verbatim>\<open>process_structure_geometry\<close> produces it.  \<open>label\<close> is
  the index label of the row (the title of the building block), the other fields are the
  columns; \<open>subassembly\<close> is the column \<^verbatim>\<open>Subassembly\<close>, absent until \<^verbatim>\<open>extend_dfs\<close> adds
  it.  A table is the list of its rows, from top to bottom.
\<close>

record can_row =
  label :: string
  elev_from :: flt
  elev_to :: flt
  height_m :: flt
  diam_from :: flt
  diam_to :: flt
  volume_m3 :: flt
  wall_thickness_mm :: flt
  youngs_modulus_gpa :: flt
  poissons_ratio :: flt
  mass_t :: flt
  rho :: flt
  subassembly :: "string option"

record can_properties =
  cp_height :: flt
  cp_volume :: flt
  cp_mass :: flt
  cp_rho :: flt

text \<open>\<^verbatim>\<open>OWT.can_adjust_properties\<close>\<close>

definition can_adjust_properties :: "can_row \<Rightarrow> can_properties" where
  "can_adjust_properties row =
     (let density = fdiv (mass_t row) (volume_m3 row);
          height = fsub (elev_from row) (elev_to row);
          r1 = fdiv (diam_from row) (Num 2);
          r2 = fdiv (diam_to row) (Num 2);
          volume_out =
            fmul (fmul (fmul (fdiv (Num 1) (Num 3)) (Num pi))
                       (fadd (fadd (fmul r1 r1) (fmul r1 r2)) (fmul r2 r2)))
                 height;
          wall_thickness = fmul (wall_thickness_mm row) (Num (1 / 1000));
          r1 = fsub r1 wall_thickness;
          r2 = fsub r2 wall_thickness;
          volume_in =
            fmul (fmul (fmul (fdiv (Num 1) (Num 3)) (Num pi))
                       (fadd (fadd (fmul r1 r1) (fmul r1 r2)) (fmul r2 r2)))
                 height;
          volume = fsub volume_out volume_in;
          mass = fmul volume density;
          rho_m = fdiv mass height
      in \<lparr>cp_height = height, cp_volume = volume, cp_mass = mass, cp_rho = rho_m\<rparr>)"

text \<open>
  \<^verbatim>\<open>np.interp(x, xp, fp)\<close> for two data points, after numpy's algorithm: a \<^verbatim>\<open>nan\<close> abscissa
  is returned as it is; an abscissa above the last point gives the right value and one
  below the first point the left value (the points are not checked to be increasing); the
  search then ends at the last point when \<open>x \<ge> xp[1]\<close>; otherwise the first point is hit
  exactly or the slope is used, with numpy's fallbacks when the result is \<^verbatim>\<open>nan\<close>.
\<close>

definition np_interp2 :: "flt \<Rightarrow> flt \<times> flt \<Rightarrow> flt \<times> flt \<Rightarrow> flt" where
  "np_interp2 x xp fp =
     (case xp of (x0, x1) \<Rightarrow> case fp of (y0, y1) \<Rightarrow>
        if isnan x then x
        else if flt_gt x x1 then y1
        else if flt_lt x x0 then y0
        else if flt_ge x x1 then y1
        else if flt_eq x0 x then y0
        else (let slope = fdiv (fsub y1 y0) (fsub x1 x0);
                  res = fadd (fmul slope (fsub x x0)) y0
              in if isnan res
                 then (let res2 = fadd (fmul slope (fsub x x1)) y1
                       in if isnan res2 \<and> flt_eq y0 y1 then y0 else res2)
                 else res))"

text \<open>
  \<^verbatim>\<open>df.loc[l, col] = v\<close> assigns in every row whose index label is \<open>l\<close>; \<^verbatim>\<open>df.iloc[ind]\<close>
  and \<^verbatim>\<open>df.index[ind]\<close> are used with \<open>ind = -1\<close> (the last row) and \<open>ind = 0\<close> (the first)
  only, and raise \<^verbatim>\<open>IndexError\<close> on a table without rows.
\<close>

definition set_loc :: "string \<Rightarrow> (can_row \<Rightarrow> can_row) \<Rightarrow> can_row list \<Rightarrow> can_row list" where
  "set_loc l f df = map (\<lambda>r. if label r = l then f r else r) df"

definition iloc :: "bool \<Rightarrow> can_row list \<Rightarrow> can_row" where
  "iloc bottom df = (if bottom then last df else hd df)"

text \<open>
  \<^verbatim>\<open>OWT.can_modification\<close>.  Every position other than \<^verbatim>\<open>"bottom"\<close> is treated as the top.
  The table passed in is changed in place and returned; the callers pass a copy.
\<close>

definition can_modification ::
    "can_row list \<Rightarrow> flt option \<Rightarrow> string \<Rightarrow> error + can_row list" where
  "can_modification df altitude position =
     (let bottom = (position = ''bottom'');
          altitude_val = (case altitude of None \<Rightarrow> NaN | Some a \<Rightarrow> a)
      in if df = [] then Inl IndexError
         else
           (let row_index = label (iloc bottom df);
                df1 = set_loc row_index
                        (\<lambda>r. if bottom then r\<lparr>elev_to := altitude_val\<rparr>
                             else r\<lparr>elev_from := altitude_val\<rparr>) df;
                elevation = (elev_from (iloc bottom df1), elev_to (iloc bottom df1));
                diameters = (diam_from (iloc bottom df1), diam_to (iloc bottom df1));
                d = np_interp2 altitude_val elevation diameters;
                df2 = set_loc row_index
                        (\<lambda>r. if bottom then r\<lparr>diam_to := d\<rparr> else r\<lparr>diam_from := d\<rparr>) df1;
                props = can_adjust_properties (iloc bottom df2)
            in Inr (set_loc row_index
                      (\<lambda>r. r\<lparr>height_m := cp_height props, volume_m3 := cp_volume props,
                              mass_t := cp_mass props, rho := cp_rho props\<rparr>) df2)))"

text \<open>
  The other tables.  A row of the table of building blocks of a subassembly
  (\<^verbatim>\<open>SubAssembly.as_df\<close>, indexed by title); a row of the RNA table; a row of a table of
  lumped masses; a row of a table of distributed masses.  In a numeric column a missing
  value is \<^verbatim>\<open>nan\<close>.
\<close>

record moi =
  moi_x :: "flt option"
  moi_y :: "flt option"
  moi_z :: "flt option"

record bb_row =
  row_title :: string
  row_x :: flt
  row_y :: flt
  row_z :: flt
  row_OD :: string
  row_wall_thickness :: flt
  row_height :: flt
  row_volume :: flt
  row_mass :: flt
  row_moment_of_inertia :: moi
  row_description :: string

record rna_row =
  rna_label :: string
  rna_X :: flt
  rna_Y :: flt
  rna_Z :: flt
  rna_mass :: flt
  rna_Ixx :: flt
  rna_Iyy :: flt
  rna_Izz :: flt
  rna_description :: string
  rna_subassembly :: "string option"

record lump_row =
  lm_label :: string
  lm_X :: flt
  lm_Y :: flt
  lm_Z :: flt
  lm_mass :: flt
  lm_description :: string
  lm_subassembly :: "string option"

record dist_row =
  dm_label :: string
  dm_X :: flt
  dm_Y :: flt
  dm_Z :: flt
  dm_height :: flt
  dm_mass :: flt
  dm_volume :: flt
  dm_description :: string
  dm_subassembly :: "string option"

text \<open>
  A subassembly as the turbine engine sees it.  Its building blocks come from the API
  collaborator, so the table \<^verbatim>\<open>as_df()\<close> and the properties \<^verbatim>\<open>absolute_bottom\<close> and
  \<^verbatim>\<open>absolute_top\<close> derived from them are carried as their outcomes: a value, or the
  exception the evaluation raises.
\<close>

record sub_assembly =
  sa_type :: string
  sa_position :: position
  sa_as_df :: "error + bb_row list"
  sa_absolute_bottom :: "error + flt"
  sa_absolute_top :: "error + flt"

text \<open>
  The state of an \<^verbatim>\<open>OWT\<close> object.  \<^verbatim>\<open>sub_assemblies\<close> is a dictionary in insertion order.
  The attributes \<^verbatim>\<open>api\<close> and \<^verbatim>\<open>materials\<close> are not read by the operations modelled.
\<close>

record owt =
  init_proc :: bool
  init_spec_part :: bool
  init_spec_full :: bool
  sub_assemblies :: "(string \<times> sub_assembly) list"
  tw_sub_assemblies :: "bb_row list option"
  tp_sub_assemblies :: "bb_row list option"
  mp_sub_assemblies :: "bb_row list option"
  tower_base :: "flt option"
  pile_head :: "flt option"
  water_depth :: flt
  pile_toe :: "flt option"
  rna :: "rna_row list option"
  tower :: "can_row list option"
  transition_piece :: "can_row list option"
  monopile :: "can_row list option"
  tw_lumped_mass :: "lump_row list option"
  tp_lumped_mass :: "lump_row list option"
  mp_lumped_mass :: "lump_row list option"
  tp_distributed_mass :: "dist_row list option"
  mp_distributed_mass :: "dist_row list option"
  grout :: "dist_row list option"
  full_structure :: "can_row list option"
  tp_skirt :: "can_row list option"
  substructure :: "can_row list option"

definition ATTR_PROC :: "string list" where
  "ATTR_PROC = [''pile_toe'', ''rna'', ''tower'', ''transition_piece'', ''monopile'',
                ''tw_lumped_mass'', ''tp_lumped_mass'', ''mp_lumped_mass'',
                ''tp_distributed_mass'', ''mp_distributed_mass'', ''grout'']"

definition ATTR_SPEC :: "string list" where
  "ATTR_SPEC = [''full_structure'', ''tp_skirt'', ''substructure'']"

definition ATTR_FULL :: "string list" where
  "ATTR_FULL = [''all_tubular_structures'', ''all_distributed_mass'', ''all_lumped_mass'',
                ''all_turbines'']"

subsection \<open>Construction\<close>

text \<open>\<^verbatim>\<open>dict(zip(keys, values))\<close>: a later value for a key replaces the earlier one in place.\<close>

definition dict_zip :: "'k list \<Rightarrow> 'v list \<Rightarrow> ('k \<times> 'v) list" where
  "dict_zip ks vs = fold (\<lambda>(k, v) d. AList.update k v d) (zip ks vs) []"





subsection \<open>Processing of the subassembly tables\<close>

text \<open>
  \<^verbatim>\<open>index.str.contains(idx)\<close>: the patterns used are plain words, for which the regular
  expression search of pandas is the search for a substring.
\<close>

fun contains :: "string \<Rightarrow> string \<Rightarrow> bool" where
  "contains pat [] = (pat = [])"
| "contains pat (c # cs) = (take (length pat) (c # cs) = pat \<or> contains pat cs)"

text \<open>
  \<^verbatim>\<open>round(x, n)\<close> and \<^verbatim>\<open>df.round(n)\<close>: scale by \<open>10\<^sup>n\<close>, round to the nearest integer (ties to
  even), scale back.  The sum of a column skips \<^verbatim>\<open>nan\<close>.
\<close>

fun round_dec :: "nat \<Rightarrow> flt \<Rightarrow> flt" where
  "round_dec n NaN = NaN"
| "round_dec n (Num x) = Num (of_int (rint (x * 10 ^ n)) / 10 ^ n)"

fun col_sum :: "flt list \<Rightarrow> real" where
  "col_sum [] = 0"
| "col_sum (NaN # vs) = col_sum vs"
| "col_sum (Num v # vs) = v + col_sum vs"

definition milli :: "flt \<Rightarrow> flt" where
  "milli v = fmul v (Num (1 / 1000))"

text \<open>
  The conversion of a diameter string to a float.  The strings that \<^verbatim>\<open>diameter_str\<close>
  writes are decimal integers; a sign and a fractional part are accepted too.  The other
  spellings that Python accepts (exponents, \<^verbatim>\<open>inf\<close>, \<^verbatim>\<open>nan\<close>, blanks, underscores) are not
  modelled and count as unparsable.
\<close>

definition digit_val :: "char \<Rightarrow> nat option" where
  "digit_val c = (if c = CHR ''0'' then Some 0 else if c = CHR ''1'' then Some 1
     else if c = CHR ''2'' then Some 2 else if c = CHR ''3'' then Some 3
     else if c = CHR ''4'' then Some 4 else if c = CHR ''5'' then Some 5
     else if c = CHR ''6'' then Some 6 else if c = CHR ''7'' then Some 7
     else if c = CHR ''8'' then Some 8 else if c = CHR ''9'' then Some 9 else None)"

fun digits_val :: "nat \<Rightarrow> string \<Rightarrow> nat option" where
  "digits_val acc [] = Some acc"
| "digits_val acc (c # cs) =
     (case digit_val c of None \<Rightarrow> None | Some d \<Rightarrow> digits_val (10 * acc + d) cs)"

definition unsigned_val :: "string \<Rightarrow> real option" where
  "unsigned_val str =
     (let ip = takeWhile (\<lambda>c. c \<noteq> CHR ''.'') str;
          fp = drop (Suc (length ip)) str
      in if ip = [] \<and> fp = [] then None
         else (case (digits_val 0 ip, digits_val 0 fp) of
                 (Some a, Some b) \<Rightarrow> Some (real a + real b / 10 ^ length fp)
               | _ \<Rightarrow> None))"

definition py_float :: "string \<Rightarrow> error + flt" where
  "py_float str =
     (case (case str of
              c # cs \<Rightarrow> if c = CHR ''-'' then map_option uminus (unsigned_val cs)
                        else if c = CHR ''+'' then unsigned_val cs
                        else unsigned_val str
            | [] \<Rightarrow> None) of
        None \<Rightarrow> Inl (FloatParseError str)
      | Some v \<Rightarrow> Inr (Num v))"

text \<open>\<^verbatim>\<open>d.split("/", 1)\<close>: the part before the first slash and, if there is a slash, the rest.\<close>

definition split_slash :: "string \<Rightarrow> string \<times> string option" where
  "split_slash d =
     (let a = takeWhile (\<lambda>c. c \<noteq> CHR ''/'') d
      in if length a < length d then (a, Some (drop (Suc (length a)) d)) else (a, None))"

text \<open>Running the statements of a method one after the other, up to the first exception.\<close>

fun run :: "('s \<Rightarrow> error option \<times> 's) list \<Rightarrow> 's \<Rightarrow> error option \<times> 's" where
  "run [] s = (None, s)"
| "run (f # fs) s = (case f s of (Some e, s1) \<Rightarrow> (Some e, s1) | (None, s1) \<Rightarrow> run fs s1)"

fun collect :: "('a \<Rightarrow> error + 'b) \<Rightarrow> 'a list \<Rightarrow> error + 'b list" where
  "collect f [] = Inr []"
| "collect f (x # xs) =
     (case f x of Inl e \<Rightarrow> Inl e
      | Inr y \<Rightarrow> (case collect f xs of Inl e \<Rightarrow> Inl e | Inr ys \<Rightarrow> Inr (y # ys)))"

text \<open>
  A row of the table that \<^verbatim>\<open>set_df_structure\<close> returns: the columns kept from the table of
  building blocks and the two elevations.
\<close>

record struct_row =
  st_label :: string
  st_OD :: string
  st_height :: flt
  st_mass :: flt
  st_volume :: flt
  st_wall_thickness :: flt
  st_x :: flt
  st_y :: flt
  st_z :: flt
  st_elev_from :: flt
  st_elev_to :: flt

definition elevate :: "flt \<Rightarrow> bb_row \<Rightarrow> struct_row" where
  "elevate base r =
     (let depth_to = fadd base (milli (row_z r));
          depth_from = fadd depth_to (milli (row_height r))
      in \<lparr>st_label = row_title r, st_OD = row_OD r, st_height = row_height r,
          st_mass = row_mass r, st_volume = row_volume r,
          st_wall_thickness = row_wall_thickness r, st_x = row_x r, st_y = row_y r,
          st_z = row_z r, st_elev_from = round_dec 3 depth_from,
          st_elev_to = round_dec 3 depth_to\<rparr>)"

text \<open>
  \<^verbatim>\<open>OWT.set_df_structure\<close>.  The branch of the monopile stores the pile toe in the object.
  Arithmetic with a tower base or pile head that is \<^verbatim>\<open>None\<close> raises.
\<close>

definition set_df_structure :: "string \<Rightarrow> owt \<Rightarrow> (error + struct_row list) \<times> owt" where
  "set_df_structure idx s =
     (if idx = ''tw'' then
        (case tw_sub_assemblies s of
           None \<Rightarrow> (Inl (ValueError ''Tower subassembly data not found.''), s)
         | Some sa \<Rightarrow>
             (let df = filter (\<lambda>r. contains idx (row_title r)) sa
              in case tower_base s of
                   None \<Rightarrow> (Inl NoneTypeError, s)
                 | Some tb \<Rightarrow> (Inr (map (elevate tb) df), s)))
      else if idx = ''tp'' then
        (case tp_sub_assemblies s of
           None \<Rightarrow> (Inl (ValueError ''Transition piece subassembly data not found.''), s)
         | Some sa \<Rightarrow>
             (let df = filter (\<lambda>r. contains idx (row_title r)
                                  \<and> \<not> contains ''grout'' (row_title r)) sa
              in case tower_base s of
                   None \<Rightarrow> (Inl NoneTypeError, s)
                 | Some tb \<Rightarrow>
                     (let bottom_tp = fsub tb (milli (Num (col_sum (map row_height df))))
                      in (Inr (map (elevate bottom_tp) df), s))))
      else if idx = ''mp'' then
        (case mp_sub_assemblies s of
           None \<Rightarrow> (Inl (ValueError ''Monopile subassembly data not found.''), s)
         | Some sa \<Rightarrow>
             (let df = filter (\<lambda>r. contains idx (row_title r)) sa
              in case pile_head s of
                   None \<Rightarrow> (Inl NoneTypeError, s)
                 | Some ph \<Rightarrow>
                     (let toe = fsub ph (milli (Num (col_sum (map row_height df))))
                      in (Inr (map (elevate toe) df),
                          s\<lparr>pile_toe := Some (round_dec 3 toe)\<rparr>))))
      else (Inl (ValueError ''Unknown index.''), s))"

text \<open>
  \<^verbatim>\<open>OWT.process_structure_geometry\<close>.  The diameter after the slash (or the only one) is
  the diameter at \<^verbatim>\<open>Elevation from\<close>, the one before the slash the diameter at
  \<^verbatim>\<open>Elevation to\<close>; all the first are converted before the second.
\<close>

definition d_from_str :: "struct_row \<Rightarrow> string" where
  "d_from_str r = (case split_slash (st_OD r) of (a, Some b) \<Rightarrow> b | (a, None) \<Rightarrow> a)"

definition d_to_str :: "struct_row \<Rightarrow> string" where
  "d_to_str r = fst (split_slash (st_OD r))"

definition geometry_row :: "struct_row \<Rightarrow> flt \<Rightarrow> flt \<Rightarrow> can_row" where
  "geometry_row r d_from d_to =
     \<lparr>label = st_label r, elev_from = st_elev_from r, elev_to = st_elev_to r,
      height_m = milli (st_height r), diam_from = milli d_from, diam_to = milli d_to,
      volume_m3 = st_volume r, wall_thickness_mm = st_wall_thickness r,
      youngs_modulus_gpa = Num 210, poissons_ratio = Num (3 / 10),
      mass_t = milli (st_mass r), rho = fdiv (st_mass r) (st_height r),
      subassembly = None\<rparr>"

definition process_structure_geometry ::
    "string \<Rightarrow> owt \<Rightarrow> (error + can_row list) \<times> owt" where
  "process_structure_geometry idx s =
     (case set_df_structure idx s of
        (Inl e, s1) \<Rightarrow> (Inl e, s1)
      | (Inr df, s1) \<Rightarrow>
          (case collect (\<lambda>r. py_float (d_from_str r)) df of
             Inl e \<Rightarrow> (Inl e, s1)
           | Inr d_from \<Rightarrow>
               (case collect (\<lambda>r. py_float (d_to_str r)) df of
                  Inl e \<Rightarrow> (Inl e, s1)
                | Inr d_to \<Rightarrow>
                    (Inr (map (\<lambda>(r, f, t). geometry_row r f t) (zip df (zip d_from d_to))),
                     s1))))"

text \<open>\<^verbatim>\<open>OWT.process_rna\<close>\<close>

definition moi_milli :: "flt option \<Rightarrow> error + flt" where
  "moi_milli v = (case v of None \<Rightarrow> Inl NoneTypeError | Some a \<Rightarrow> Inr (milli a))"

definition rna_inertia :: "bb_row \<Rightarrow> error + (flt \<times> flt \<times> flt)" where
  "rna_inertia r =
     (case moi_milli (moi_x (row_moment_of_inertia r)) of Inl e \<Rightarrow> Inl e | Inr ix \<Rightarrow>
      case moi_milli (moi_y (row_moment_of_inertia r)) of Inl e \<Rightarrow> Inl e | Inr iy \<Rightarrow>
      case moi_milli (moi_z (row_moment_of_inertia r)) of Inl e \<Rightarrow> Inl e | Inr iz \<Rightarrow>
        Inr (ix, iy, iz))"

definition process_rna :: "owt \<Rightarrow> error option \<times> owt" where
  "process_rna s =
     (case tw_sub_assemblies s of
        None \<Rightarrow> (Some (ValueError ''Tower subassembly data not found.''), s)
      | Some sa \<Rightarrow>
          (let rows = filter (\<lambda>r. contains ''RNA'' (row_title r)) sa
           in case collect rna_inertia rows of
                Inl e \<Rightarrow> (Some e, s)
              | Inr mi \<Rightarrow>
                  (case tower_base s of
                     None \<Rightarrow> (Some NoneTypeError, s)
                   | Some tb \<Rightarrow>
                       (None, s\<lparr>rna := Some (map (\<lambda>(r, ix, iy, iz).
                          \<lparr>rna_label = row_title r, rna_X = milli (row_x r),
                           rna_Y = milli (row_y r), rna_Z = fadd tb (milli (row_z r)),
                           rna_mass = milli (row_mass r), rna_Ixx = ix, rna_Iyy = iy,
                           rna_Izz = iz, rna_description = row_description r,
                           rna_subassembly = None\<rparr>) (zip rows mi))\<rparr>))))"

text \<open>
  \<^verbatim>\<open>OWT.set_df_appurtenances\<close>: the rows selected, each with its \<^verbatim>\<open>Z [mLAT]\<close>.  Lumped
  masses are the rows without a height.
\<close>

definition set_df_appurtenances :: "string \<Rightarrow> owt \<Rightarrow> error + (bb_row \<times> flt) list" where
  "set_df_appurtenances idx s =
     (if idx = ''TW'' then
        (case tw_sub_assemblies s of
           None \<Rightarrow> Inl (ValueError ''Tower subassembly data not found.'')
         | Some sa \<Rightarrow>
             (case tower_base s of
                None \<Rightarrow> Inl NoneTypeError
              | Some tb \<Rightarrow>
                  Inr (map (\<lambda>r. (r, fadd tb (milli (row_z r))))
                         (filter (\<lambda>r. contains idx (row_title r)) sa))))
      else if idx = ''TP'' then
        (case tp_sub_assemblies s of
           None \<Rightarrow> Inl (ValueError ''Transition piece subassembly data not found.'')
         | Some sa \<Rightarrow>
             (case map_of (sub_assemblies s) ''TP'' of
                None \<Rightarrow> Inl (KeyError ''TP'')
              | Some tp \<Rightarrow>
                  (let bottom = milli (pos_z (sa_position tp))
                   in Inr (map (\<lambda>r. (r, fadd bottom (milli (row_z r))))
                             (filter (\<lambda>r. contains idx (row_title r) \<and> isnan (row_height r))
                                sa)))))
      else if idx = ''MP'' then
        (case mp_sub_assemblies s of
           None \<Rightarrow> Inl (ValueError ''Monopile subassembly data not found.'')
         | Some sa \<Rightarrow>
             (case pile_toe s of
                None \<Rightarrow> Inl NoneTypeError
              | Some bottom \<Rightarrow>
                  Inr (map (\<lambda>r. (r, fadd bottom (milli (row_z r))))
                         (filter (\<lambda>r. contains idx (row_title r) \<and> isnan (row_height r))
                            sa))))
      else Inl (ValueError ''Unknown index.''))"

text \<open>\<^verbatim>\<open>OWT.process_lumped_masses\<close>\<close>

definition process_lumped_masses :: "string \<Rightarrow> owt \<Rightarrow> error + lump_row list" where
  "process_lumped_masses idx s =
     (case set_df_appurtenances idx s of
        Inl e \<Rightarrow> Inl e
      | Inr df \<Rightarrow>
          Inr (map (\<lambda>(r, z). \<lparr>lm_label = row_title r, lm_X = milli (row_x r),
                               lm_Y = milli (row_y r), lm_Z = z, lm_mass = milli (row_mass r),
                               lm_description = row_description r,
                               lm_subassembly = None\<rparr>) df))"

text \<open>
  \<^verbatim>\<open>OWT.set_df_distributed_appurtenances\<close>: distributed masses are the rows with a height.
  The branches \<^verbatim>\<open>"TP"\<close> and \<^verbatim>\<open>"grout"\<close> have the same body, \<open>tp_distributed\<close>; in it the first
  row of the whole transition-piece table is read before the subtraction from the tower
  base.
\<close>

definition tp_distributed :: "string \<Rightarrow> owt \<Rightarrow> error + (bb_row \<times> flt) list" where
  "tp_distributed idx s =
     (case tp_sub_assemblies s of
        None \<Rightarrow> Inl (ValueError ''Transition piece subassembly data not found.'')
      | Some sa \<Rightarrow>
          (case sa of
             [] \<Rightarrow> Inl IndexError
           | first_row # _ \<Rightarrow>
               (case tower_base s of
                  None \<Rightarrow> Inl NoneTypeError
                | Some tb \<Rightarrow>
                    (let bottom_tp = fsub tb (milli (row_z first_row))
                     in Inr (map (\<lambda>r. (r, fadd bottom_tp (milli (row_z r))))
                               (filter (\<lambda>r. contains idx (row_title r)
                                            \<and> \<not> isnan (row_height r)) sa))))))"

definition set_df_distributed_appurtenances ::
    "string \<Rightarrow> owt \<Rightarrow> error + (bb_row \<times> flt) list" where
  "set_df_distributed_appurtenances idx s =
     (if idx = ''TP'' then tp_distributed idx s
      else if idx = ''MP'' then
        (case mp_sub_assemblies s of
           None \<Rightarrow> Inl (ValueError ''Monopile subassembly data not found.'')
         | Some sa \<Rightarrow>
             (case pile_toe s of
                None \<Rightarrow> Inl NoneTypeError
              | Some bottom \<Rightarrow>
                  Inr (map (\<lambda>r. (r, fadd bottom (milli (row_z r))))
                         (filter (\<lambda>r. contains idx (row_title r) \<and> \<not> isnan (row_height r))
                            sa))))
      else if idx = ''grout'' then tp_distributed idx s
      else Inl (ValueError
        ''Unknown index or non distributed lumped masses located outside the transition piece.''))"

text \<open>\<^verbatim>\<open>OWT.process_distributed_lumped_masses\<close>\<close>

definition process_distributed_lumped_masses :: "string \<Rightarrow> owt \<Rightarrow> error + dist_row list" where
  "process_distributed_lumped_masses idx s =
     (case set_df_distributed_appurtenances idx s of
        Inl e \<Rightarrow> Inl e
      | Inr df \<Rightarrow>
          Inr (map (\<lambda>(r, z). \<lparr>dm_label = row_title r, dm_X = milli (row_x r),
                               dm_Y = milli (row_y r), dm_Z = z,
                               dm_height = milli (row_height r), dm_mass = milli (row_mass r),
                               dm_volume = row_volume r, dm_description = row_description r,
                               dm_subassembly = None\<rparr>) df))"

text \<open>
  \<^verbatim>\<open>OWT.process_structure\<close>.  Each assignment \<^verbatim>\<open>self.attr = self.method(idx)\<close> is a statement
  that may raise; an option that is none of the four recognized ones falls through the
  chain of tests.
\<close>

definition assign_cans ::
    "string \<Rightarrow> ((can_row list option \<Rightarrow> can_row list option) \<Rightarrow> owt \<Rightarrow> owt)
     \<Rightarrow> owt \<Rightarrow> error option \<times> owt" where
  "assign_cans idx upd s =
     (case process_structure_geometry idx s of
        (Inl e, s1) \<Rightarrow> (Some e, s1)
      | (Inr df, s1) \<Rightarrow> (None, upd (\<lambda>_. Some df) s1))"

definition assign_lumped ::
    "string \<Rightarrow> ((lump_row list option \<Rightarrow> lump_row list option) \<Rightarrow> owt \<Rightarrow> owt)
     \<Rightarrow> owt \<Rightarrow> error option \<times> owt" where
  "assign_lumped idx upd s =
     (case process_lumped_masses idx s of
        Inl e \<Rightarrow> (Some e, s)
      | Inr df \<Rightarrow> (None, upd (\<lambda>_. Some df) s))"

definition assign_distributed ::
    "string \<Rightarrow> ((dist_row list option \<Rightarrow> dist_row list option) \<Rightarrow> owt \<Rightarrow> owt)
     \<Rightarrow> owt \<Rightarrow> error option \<times> owt" where
  "assign_distributed idx upd s =
     (case process_distributed_lumped_masses idx s of
        Inl e \<Rightarrow> (Some e, s)
      | Inr df \<Rightarrow> (None, upd (\<lambda>_. Some df) s))"

definition process_structure :: "string \<Rightarrow> owt \<Rightarrow> error option \<times> owt" where
  "process_structure option s0 =
     (let s = s0\<lparr>init_proc := True\<rparr>
      in if option = ''full'' then
           run [process_rna,
                assign_cans ''tw'' tower_update,
                assign_cans ''tp'' transition_piece_update,
                assign_cans ''mp'' monopile_update,
                assign_lumped ''TW'' tw_lumped_mass_update,
                assign_lumped ''TP'' tp_lumped_mass_update,
                assign_lumped ''MP'' mp_lumped_mass_update,
                assign_distributed ''TP'' tp_distributed_mass_update,
                assign_distributed ''MP'' mp_distributed_mass_update,
                assign_distributed ''grout'' grout_update] s
         else if option = ''TW'' then
           run [process_rna,
                assign_cans ''tw'' tower_update,
                assign_lumped ''TW'' tw_lumped_mass_update] s
         else if option = ''TP'' then
           run [assign_cans ''tp'' transition_piece_update,
                assign_lumped ''TP'' tp_lumped_mass_update,
                assign_distributed ''TP'' tp_distributed_mass_update,
                assign_distributed ''grout'' grout_update] s
         else if option = ''MP'' then
           run [assign_cans ''mp'' monopile_update,
                assign_lumped ''MP'' mp_lumped_mass_update,
                assign_distributed ''MP'' mp_distributed_mass_update] s
         else (None, s))"

subsection \<open>Assembly\<close>

text \<open>
  A method that changes the object and may raise returns the exception raised, if any,
  together with the state the object is left in.
\<close>

text \<open>
  \<^verbatim>\<open>OWT.assembly_tp_mp\<close>.  A comparison of a column with \<^verbatim>\<open>None\<close> is false in every row, as
  with \<^verbatim>\<open>nan\<close>.  The test on the first kept row reads \<^verbatim>\<open>df.loc[df.index[0], ...]\<close>: on a
  table without rows \<^verbatim>\<open>df.index[0]\<close> raises \<^verbatim>\<open>IndexError\<close>, and when several rows carry that
  label the selection is a series, whose truth value pandas refuses (\<open>AmbiguousError\<close>).
\<close>

definition head_or_nan :: "flt option \<Rightarrow> flt" where
  "head_or_nan h = (case h of None \<Rightarrow> NaN | Some a \<Rightarrow> a)"

definition assembly_tp_mp :: "owt \<Rightarrow> error option \<times> owt" where
  "assembly_tp_mp s0 =
     (let s = s0\<lparr>init_spec_part := True\<rparr>
      in case (transition_piece s, monopile s) of
           (Some tp, Some mp) \<Rightarrow>
             (let mp_head = pile_head s;
                  df = filter (\<lambda>r. flt_gt (elev_from r) (head_or_nan mp_head)) tp
              in if df = [] then (Some IndexError, s)
                 else if 1 < length (filter (\<lambda>r. label r = label (hd df)) df)
                 then (Some AmbiguousError, s)
                 else
                   (case (if flt_ne (elev_to (hd df)) (head_or_nan mp_head)
                          then can_modification df mp_head ''bottom''
                          else Inr df) of
                      Inl e \<Rightarrow> (Some e, s)
                    | Inr tp1 \<Rightarrow>
                        (let s1 = s\<lparr>substructure := Some (tp1 @ mp)\<rparr>;
                             df2 = filter (\<lambda>r. flt_lt (elev_to r) (head_or_nan mp_head)) tp
                         in case can_modification df2 mp_head ''top'' of
                              Inl e \<Rightarrow> (Some e, s1)
                            | Inr skirt \<Rightarrow> (None, s1\<lparr>tp_skirt := Some skirt\<rparr>))))
         | _ \<Rightarrow> (Some (TypeError ''TP or MP items need to be processed before!''), s))"

text \<open>\<^verbatim>\<open>OWT.assembly_full_structure\<close>\<close>

definition assembly_full_structure :: "owt \<Rightarrow> error option \<times> owt" where
  "assembly_full_structure s0 =
     (let s = s0\<lparr>init_spec_full := True\<rparr>
      in case substructure s of
           Some sub \<Rightarrow>
             (case tower s of
                Some tw \<Rightarrow> (None, s\<lparr>full_structure := Some (tw @ sub)\<rparr>)
              | None \<Rightarrow> (Some (TypeError ''Tower needs to be processed before!''), s))
         | None \<Rightarrow> (Some (TypeError ''Substructure needs to be processed before!''), s))"

text \<open>
  \<^verbatim>\<open>OWT.extend_dfs\<close>.  The loop over \<^verbatim>\<open>ATTR_PROC\<close> tags every table that is not null with
  the subassembly its attribute name stands for (\<^verbatim>\<open>pile_toe\<close> matches no test); then the
  two assemblies are run or their slots set to null.
\<close>

definition tag_of :: "string \<Rightarrow> string option" where
  "tag_of attr =
     (if contains ''tower'' attr \<or> contains ''tw_'' attr \<or> contains ''rna'' attr
      then Some ''TW''
      else if contains ''tp_'' attr \<or> contains ''transition'' attr \<or> contains ''grout'' attr
      then Some ''TP''
      else if contains ''mp_'' attr \<or> contains ''monopile'' attr then Some ''MP''
      else None)"

definition tag_table ::
    "string \<Rightarrow> (string option \<Rightarrow> 'r \<Rightarrow> 'r) \<Rightarrow> 'r list option \<Rightarrow> 'r list option" where
  "tag_table attr setter df =
     (case df of
        None \<Rightarrow> None
      | Some rows \<Rightarrow>
          (case tag_of attr of
             None \<Rightarrow> Some rows
           | Some t \<Rightarrow> Some (map (setter (Some t)) rows)))"

definition tag_tables :: "owt \<Rightarrow> owt" where
  "tag_tables s =
     s\<lparr>rna := tag_table ''rna'' (\<lambda>t r. r\<lparr>rna_subassembly := t\<rparr>) (rna s),
       tower := tag_table ''tower'' (\<lambda>t r. r\<lparr>subassembly := t\<rparr>) (tower s),
       transition_piece :=
         tag_table ''transition_piece'' (\<lambda>t r. r\<lparr>subassembly := t\<rparr>) (transition_piece s),
       monopile := tag_table ''monopile'' (\<lambda>t r. r\<lparr>subassembly := t\<rparr>) (monopile s),
       tw_lumped_mass :=
         tag_table ''tw_lumped_mass'' (\<lambda>t r. r\<lparr>lm_subassembly := t\<rparr>) (tw_lumped_mass s),
       tp_lumped_mass :=
         tag_table ''tp_lumped_mass'' (\<lambda>t r. r\<lparr>lm_subassembly := t\<rparr>) (tp_lumped_mass s),
       mp_lumped_mass :=
         tag_table ''mp_lumped_mass'' (\<lambda>t r. r\<lparr>lm_subassembly := t\<rparr>) (mp_lumped_mass s),
       tp_distributed_mass :=
         tag_table ''tp_distributed_mass'' (\<lambda>t r. r\<lparr>dm_subassembly := t\<rparr>)
           (tp_distributed_mass s),
       mp_distributed_mass :=
         tag_table ''mp_distributed_mass'' (\<lambda>t r. r\<lparr>dm_subassembly := t\<rparr>)
           (mp_distributed_mass s),
       grout := tag_table ''grout'' (\<lambda>t r. r\<lparr>dm_subassembly := t\<rparr>) (grout s)\<rparr>"

definition has_key :: "('k \<times> 'v) list \<Rightarrow> 'k \<Rightarrow> bool" where
  "has_key d k = (map_of d k \<noteq> None)"

definition extend_dfs :: "owt \<Rightarrow> error option \<times> owt" where
  "extend_dfs s0 =
     (let s = tag_tables s0
      in case (if has_key (sub_assemblies s) ''TP'' \<and> has_key (sub_assemblies s) ''MP''
               then assembly_tp_mp s
               else (None, s\<lparr>init_spec_part := True, tp_skirt := None\<rparr>)) of
           (Some e, s1) \<Rightarrow> (Some e, s1)
         | (None, s1) \<Rightarrow>
             (if has_key (sub_assemblies s1) ''TW''
              then (let s2 = s1\<lparr>init_spec_full := True\<rparr>
                    in if substructure s2 \<noteq> None then assembly_full_structure s2
                       else (None, s2\<lparr>full_structure := None\<rparr>))
              else (None, s1\<lparr>full_structure := None, init_spec_full := True\<rparr>)))"

subsection \<open>Reading an attribute\<close>

datatype pyvalue =
    VFloat "flt option"
  | VBool bool
  | VSubAssemblies "(string \<times> sub_assembly) list"
  | VBlocks "bb_row list option"
  | VRna "rna_row list option"
  | VCans "can_row list option"
  | VLumped "lump_row list option"
  | VDistributed "dist_row list option"

text \<open>A warning names the attribute read and the method to run first.\<close>

datatype warning = AccessedBeforeProcessing string string

text \<open>
  \<^verbatim>\<open>object.__getattribute__\<close> on the data attributes of the object; any other name is
  answered with \<^verbatim>\<open>AttributeError\<close> (methods are not modelled as attributes).
\<close>

definition object_getattribute :: "owt \<Rightarrow> string \<Rightarrow> error + pyvalue" where
  "object_getattribute s name =
     (if name = ''_init_proc'' then Inr (VBool (init_proc s))
      else if name = ''_init_spec_part'' then Inr (VBool (init_spec_part s))
      else if name = ''_init_spec_full'' then Inr (VBool (init_spec_full s))
      else if name = ''sub_assemblies'' then Inr (VSubAssemblies (sub_assemblies s))
      else if name = ''tw_sub_assemblies'' then Inr (VBlocks (tw_sub_assemblies s))
      else if name = ''tp_sub_assemblies'' then Inr (VBlocks (tp_sub_assemblies s))
      else if name = ''mp_sub_assemblies'' then Inr (VBlocks (mp_sub_assemblies s))
      else if name = ''tower_base'' then Inr (VFloat (tower_base s))
      else if name = ''pile_head'' then Inr (VFloat (pile_head s))
      else if name = ''water_depth'' then Inr (VFloat (Some (water_depth s)))
      else if name = ''pile_toe'' then Inr (VFloat (pile_toe s))
      else if name = ''rna'' then Inr (VRna (rna s))
      else if name = ''tower'' then Inr (VCans (tower s))
      else if name = ''transition_piece'' then Inr (VCans (transition_piece s))
      else if name = ''monopile'' then Inr (VCans (monopile s))
      else if name = ''tw_lumped_mass'' then Inr (VLumped (tw_lumped_mass s))
      else if name = ''tp_lumped_mass'' then Inr (VLumped (tp_lumped_mass s))
      else if name = ''mp_lumped_mass'' then Inr (VLumped (mp_lumped_mass s))
      else if name = ''tp_distributed_mass'' then Inr (VDistributed (tp_distributed_mass s))
      else if name = ''mp_distributed_mass'' then Inr (VDistributed (mp_distributed_mass s))
      else if name = ''grout'' then Inr (VDistributed (grout s))
      else if name = ''full_structure'' then Inr (VCans (full_structure s))
      else if name = ''tp_skirt'' then Inr (VCans (tp_skirt s))
      else if name = ''substructure'' then Inr (VCans (substructure s))
      else Inl (AttributeError name))"

text \<open>
  \<^verbatim>\<open>OWT.__getattribute__\<close>: the warnings emitted, the outcome of the read and the state of
  the object after it.
\<close>

definition owt_getattribute ::
    "owt \<Rightarrow> string \<Rightarrow> (warning list \<times> (error + pyvalue)) \<times> owt" where
  "owt_getattribute s name =
     (((if name \<in> set ATTR_PROC \<and> \<not> init_proc s
        then [AccessedBeforeProcessing name ''process_structure()'']
        else if name \<in> set ATTR_SPEC \<and> \<not> init_spec_part s
        then [AccessedBeforeProcessing name ''assembly_tp_mp()'']
        else if name \<in> set ATTR_SPEC \<and> \<not> init_spec_full s
        then [AccessedBeforeProcessing name ''assembly_full_structure()'']
        else []),
       object_getattribute s name), s)"

text \<open>
  What \<^verbatim>\<open>can_modification\<close> makes of the row it selects: the elevation at the cut is set to
  the altitude, the diameter at the cut to the interpolated one, and height, volume, mass
  and mass per length are recomputed (\<open>bottom\<close>: the row is cut at its lower end).
\<close>

definition cut_can :: "bool \<Rightarrow> flt \<Rightarrow> can_row \<Rightarrow> can_row" where
  "cut_can bottom a r =
     (let r1 = (if bottom then r\<lparr>elev_to := a\<rparr> else r\<lparr>elev_from := a\<rparr>);
          d = np_interp2 a (elev_from r1, elev_to r1) (diam_from r1, diam_to r1);
          r2 = (if bottom then r1\<lparr>diam_to := d\<rparr> else r1\<lparr>diam_from := d\<rparr>);
          props = can_adjust_properties r2
      in r2\<lparr>height_m := cp_height props, volume_m3 := cp_volume props,
             mass_t := cp_mass props, rho := cp_rho props\<rparr>)"

section \<open>The fleet (class OWTs of processing.py)\<close>

text \<open>
  Every attribute of \<^verbatim>\<open>ATTR_PROC\<close>, \<^verbatim>\<open>ATTR_SPEC\<close> and \<^verbatim>\<open>ATTR_FULL\<close> starts as an empty list
  that collects one entry per turbine (a table or \<^verbatim>\<open>None\<close>) and is replaced by one
  concatenated table, or \<^verbatim>\<open>None\<close>, at the end of \<^verbatim>\<open>process_structures\<close>.  \<^verbatim>\<open>pile_toe\<close> collects
  floats and is replaced by a dictionary keyed by turbine.
\<close>

datatype 'r slot = Acc "'r list option list" | Frame "'r list option"

datatype toe_slot = ToeList "flt option list" | ToeDict "(string \<times> flt option) list"

record turbine_row =
  tr_name :: string
  tr_water_depth :: flt
  tr_monopile_toe :: flt
  tr_monopile_head :: flt
  tr_tower_base :: flt
  tr_monopile_height :: flt
  tr_monopile_mass :: flt
  tr_transition_piece_height :: flt
  tr_transition_piece_mass :: flt
  tr_tower_height :: flt
  tr_tower_mass :: flt
  tr_rna_mass :: flt

record owts =
  owts_dict :: "(string \<times> owt) list"
  fl_init :: bool
  fl_sub_assemblies :: "(string \<times> (string \<times> sub_assembly) list) list"
  fl_tower_base :: "(string \<times> flt option) list"
  fl_pile_head :: "(string \<times> flt option) list"
  fl_water_depth :: "(string \<times> flt) list"
  fl_tw_sub_assemblies :: "bb_row list option"
  fl_tp_sub_assemblies :: "bb_row list option"
  fl_mp_sub_assemblies :: "bb_row list option"
  fl_pile_toe :: toe_slot
  fl_rna :: "rna_row slot"
  fl_tower :: "can_row slot"
  fl_transition_piece :: "can_row slot"
  fl_monopile :: "can_row slot"
  fl_tw_lumped_mass :: "lump_row slot"
  fl_tp_lumped_mass :: "lump_row slot"
  fl_mp_lumped_mass :: "lump_row slot"
  fl_tp_distributed_mass :: "dist_row slot"
  fl_mp_distributed_mass :: "dist_row slot"
  fl_grout :: "dist_row slot"
  fl_full_structure :: "can_row slot"
  fl_tp_skirt :: "can_row slot"
  fl_substructure :: "can_row slot"
  all_tubular_structures :: "can_row slot"
  all_distributed_mass :: "dist_row slot"
  all_lumped_mass :: "lump_row slot"
  all_turbines :: "turbine_row slot"

text \<open>\<^verbatim>\<open>pd.concat\<close> of a list of tables skips the entries that are \<^verbatim>\<open>None\<close>.\<close>

fun concat_tables :: "'r list option list \<Rightarrow> 'r list" where
  "concat_tables [] = []"
| "concat_tables (None # ts) = concat_tables ts"
| "concat_tables (Some t # ts) = t @ concat_tables ts"

text \<open>
  \<^verbatim>\<open>OWTs.__init__\<close>.  The per-turbine dictionaries pair the turbine titles with the values
  of the dictionary of turbines, in order.
\<close>

definition owts_init :: "string list \<Rightarrow> owt list \<Rightarrow> error + owts" where
  "owts_init turbines owt_list =
     (let d = dict_zip turbines owt_list
      in case turbines of
           [] \<Rightarrow> Inl IndexError
         | t0 # _ \<Rightarrow>
             (case map_of d t0 of
                None \<Rightarrow> Inl (KeyError t0)
              | Some _ \<Rightarrow>
                  (let cat = (\<lambda>attr. let sa_turb_list =
                                           filter (\<lambda>t. t \<noteq> None) (map (\<lambda>(k, w). attr w) d)
                                     in if sa_turb_list = [] then None
                                        else Some (concat_tables sa_turb_list))
                   in Inr \<lparr>owts_dict = d, fl_init = False,
                           fl_sub_assemblies = dict_zip turbines (map (\<lambda>(k, w). sub_assemblies w) d),
                           fl_tower_base = dict_zip turbines (map (\<lambda>(k, w). tower_base w) d),
                           fl_pile_head = dict_zip turbines (map (\<lambda>(k, w). pile_head w) d),
                           fl_water_depth = dict_zip turbines (map (\<lambda>(k, w). water_depth w) d),
                           fl_tw_sub_assemblies = cat tw_sub_assemblies,
                           fl_tp_sub_assemblies = cat tp_sub_assemblies,
                           fl_mp_sub_assemblies = cat mp_sub_assemblies,
                           fl_pile_toe = ToeList [],
                           fl_rna = Acc [], fl_tower = Acc [], fl_transition_piece = Acc [],
                           fl_monopile = Acc [], fl_tw_lumped_mass = Acc [],
                           fl_tp_lumped_mass = Acc [], fl_mp_lumped_mass = Acc [],
                           fl_tp_distributed_mass = Acc [], fl_mp_distributed_mass = Acc [],
                           fl_grout = Acc [], fl_full_structure = Acc [], fl_tp_skirt = Acc [],
                           fl_substructure = Acc [], all_tubular_structures = Acc [],
                           all_distributed_mass = Acc [], all_lumped_mass = Acc [],
                           all_turbines = Acc []\<rparr>)))"

text \<open>
  Appending to a slot.  Once a slot holds a table (or \<^verbatim>\<open>None\<close>) instead of a list it has no
  \<^verbatim>\<open>append\<close> or \<^verbatim>\<open>extend\<close>.
\<close>

definition slot_extend :: "string \<Rightarrow> 'r slot \<Rightarrow> 'r list option list \<Rightarrow> error + 'r slot" where
  "slot_extend meth sl xs =
     (case sl of Acc l \<Rightarrow> Inr (Acc (l @ xs)) | Frame _ \<Rightarrow> Inl (AttributeError meth))"

definition acc ::
    "string \<Rightarrow> (owts \<Rightarrow> 'r slot) \<Rightarrow> (('r slot \<Rightarrow> 'r slot) \<Rightarrow> owts \<Rightarrow> owts)
     \<Rightarrow> 'r list option list \<Rightarrow> owts \<Rightarrow> error option \<times> owts" where
  "acc meth get upd xs f =
     (case slot_extend meth (get f) xs of
        Inl e \<Rightarrow> (Some e, f)
      | Inr sl \<Rightarrow> (None, upd (\<lambda>_. sl) f))"

definition acc_pile_toe :: "flt option \<Rightarrow> owts \<Rightarrow> error option \<times> owts" where
  "acc_pile_toe x f =
     (case fl_pile_toe f of
        ToeList l \<Rightarrow> (None, f\<lparr>fl_pile_toe := ToeList (l @ [x])\<rparr>)
      | ToeDict _ \<Rightarrow> (Some (AttributeError ''append''), f))"

text \<open>
  The columns of the RNA table that the table of all lumped masses keeps
  (\<^verbatim>\<open>extend_dfs\<close> has added the column \<^verbatim>\<open>Subassembly\<close> before).
\<close>

definition rna_as_lumped :: "rna_row \<Rightarrow> lump_row" where
  "rna_as_lumped r =
     \<lparr>lm_label = rna_label r, lm_X = rna_X r, lm_Y = rna_Y r, lm_Z = rna_Z r,
      lm_mass = rna_mass r, lm_description = rna_description r,
      lm_subassembly = rna_subassembly r\<rparr>"

text \<open>The inner loop of \<^verbatim>\<open>process_structures\<close> over \<^verbatim>\<open>attr_list\<close>, for one processed turbine.\<close>

definition accumulate :: "owt \<Rightarrow> owts \<Rightarrow> error option \<times> owts" where
  "accumulate owt =
     run [acc_pile_toe (pile_toe owt),
          acc ''append'' fl_rna fl_rna_update [rna owt],
          acc ''append'' fl_tower fl_tower_update [tower owt],
          acc ''append'' fl_transition_piece fl_transition_piece_update [transition_piece owt],
          acc ''append'' fl_monopile fl_monopile_update [monopile owt],
          acc ''append'' fl_tw_lumped_mass fl_tw_lumped_mass_update [tw_lumped_mass owt],
          acc ''append'' fl_tp_lumped_mass fl_tp_lumped_mass_update [tp_lumped_mass owt],
          acc ''append'' fl_mp_lumped_mass fl_mp_lumped_mass_update [mp_lumped_mass owt],
          acc ''append'' fl_tp_distributed_mass fl_tp_distributed_mass_update
            [tp_distributed_mass owt],
          acc ''append'' fl_mp_distributed_mass fl_mp_distributed_mass_update
            [mp_distributed_mass owt],
          acc ''append'' fl_grout fl_grout_update [grout owt],
          acc ''append'' fl_full_structure fl_full_structure_update [full_structure owt],
          acc ''append'' fl_tp_skirt fl_tp_skirt_update [tp_skirt owt],
          acc ''append'' fl_substructure fl_substructure_update [substructure owt],
          acc ''extend'' all_tubular_structures all_tubular_structures_update
            [tower owt, transition_piece owt, monopile owt],
          acc ''extend'' all_distributed_mass all_distributed_mass_update
            [tp_distributed_mass owt, grout owt, mp_distributed_mass owt],
          acc ''extend'' all_lumped_mass all_lumped_mass_update
            [map_option (map rna_as_lumped) (rna owt), tw_lumped_mass owt,
             tp_lumped_mass owt, mp_lumped_mass owt]]"

text \<open>
  The processing of one turbine: the subassemblies present are processed one by one
  unless there are exactly three of them, then the tables are extended.
\<close>

definition process_owt :: "owt \<Rightarrow> error option \<times> owt" where
  "process_owt owt =
     (case (if length (sub_assemblies owt) \<noteq> 3
            then run (map (\<lambda>(sa, v). process_structure sa) (sub_assemblies owt)) owt
            else process_structure ''full'' owt) of
        (Some e, o1) \<Rightarrow> (Some e, o1)
      | (None, o1) \<Rightarrow> extend_dfs o1)"

text \<open>
  The loop of \<^verbatim>\<open>process_structures\<close> over the turbines.  The turbine objects are changed in
  place, so the dictionary holds the processed object also when the loop is left by an
  exception.  Each turbine title is taken to hold an object of its own.
\<close>

fun process_each :: "string list \<Rightarrow> owts \<Rightarrow> error option \<times> owts" where
  "process_each [] f = (None, f)"
| "process_each (k # ks) f =
     (case map_of (owts_dict f) k of
        None \<Rightarrow> (Some (KeyError k), f)
      | Some owt \<Rightarrow>
          (case process_owt owt of
             (Some e, o1) \<Rightarrow> (Some e, f\<lparr>owts_dict := AList.update k o1 (owts_dict f)\<rparr>)
           | (None, o1) \<Rightarrow>
               (case accumulate o1 (f\<lparr>owts_dict := AList.update k o1 (owts_dict f)\<rparr>) of
                  (Some e, f1) \<Rightarrow> (Some e, f1)
                | (None, f1) \<Rightarrow> process_each ks f1)))"

text \<open>
  \<^verbatim>\<open>OWTs._concat_list\<close> on one attribute.  The test \<^verbatim>\<open>attr_val == []\<close> on a table has no
  truth value.
\<close>

definition slot_concat :: "'r slot \<Rightarrow> error + 'r slot" where
  "slot_concat sl =
     (case sl of
        Frame None \<Rightarrow> Inr (Frame None)
      | Frame (Some df) \<Rightarrow> Inl AmbiguousError
      | Acc attr_val \<Rightarrow>
          if attr_val = [] \<or> list_all (\<lambda>v. v = None) attr_val then Inr (Frame None)
          else Inr (Frame (Some (concat_tables attr_val))))"

definition cat ::
    "(owts \<Rightarrow> 'r slot) \<Rightarrow> (('r slot \<Rightarrow> 'r slot) \<Rightarrow> owts \<Rightarrow> owts)
     \<Rightarrow> owts \<Rightarrow> error option \<times> owts" where
  "cat get upd f =
     (case slot_concat (get f) of
        Inl e \<Rightarrow> (Some e, f)
      | Inr sl \<Rightarrow> (None, upd (\<lambda>_. sl) f))"

definition concat_list :: "owts \<Rightarrow> error option \<times> owts" where
  "concat_list =
     run [cat fl_rna fl_rna_update, cat fl_tower fl_tower_update,
          cat fl_transition_piece fl_transition_piece_update,
          cat fl_monopile fl_monopile_update,
          cat fl_tw_lumped_mass fl_tw_lumped_mass_update,
          cat fl_tp_lumped_mass fl_tp_lumped_mass_update,
          cat fl_mp_lumped_mass fl_mp_lumped_mass_update,
          cat fl_tp_distributed_mass fl_tp_distributed_mass_update,
          cat fl_mp_distributed_mass fl_mp_distributed_mass_update,
          cat fl_grout fl_grout_update,
          cat fl_full_structure fl_full_structure_update,
          cat fl_tp_skirt fl_tp_skirt_update,
          cat fl_substructure fl_substructure_update,
          cat all_tubular_structures all_tubular_structures_update,
          cat all_distributed_mass all_distributed_mass_update,
          cat all_lumped_mass all_lumped_mass_update]"

text \<open>
  \<^verbatim>\<open>OWTs._assembly_turbine\<close>: one row per turbine.  A total is \<^verbatim>\<open>None\<close> (a missing value of
  the table, \<^verbatim>\<open>nan\<close>) when the table it is taken from is null; a table of masses that is
  null while the structural table is not cannot be subscripted.
\<close>

definition lookup :: "(string \<times> 'v) list \<Rightarrow> string \<Rightarrow> error + 'v" where
  "lookup d k = (case map_of d k of None \<Rightarrow> Inl (KeyError k) | Some v \<Rightarrow> Inr v)"

definition total :: "('r \<Rightarrow> flt) \<Rightarrow> 'r list option \<Rightarrow> error + real" where
  "total col df =
     (case df of None \<Rightarrow> Inl NoneTypeError | Some rows \<Rightarrow> Inr (col_sum (map col rows)))"

definition opt_flt :: "flt option \<Rightarrow> flt" where
  "opt_flt v = (case v of None \<Rightarrow> NaN | Some a \<Rightarrow> a)"

definition ebind :: "error + 'a \<Rightarrow> ('a \<Rightarrow> error + 'b) \<Rightarrow> error + 'b" where
  "ebind m k = (case m of Inl e \<Rightarrow> Inl e | Inr v \<Rightarrow> k v)"

definition pile_toe_of :: "owts \<Rightarrow> string \<Rightarrow> error + flt option" where
  "pile_toe_of f turb =
     (case fl_pile_toe f of ToeDict m \<Rightarrow> lookup m turb | ToeList l \<Rightarrow> Inl NoneTypeError)"

definition monopile_mass :: "owt \<Rightarrow> error + flt" where
  "monopile_mass owt =
     (if monopile owt \<noteq> None
      then ebind (total mass_t (monopile owt)) (\<lambda>a.
           ebind (total dm_mass (mp_distributed_mass owt)) (\<lambda>b.
           ebind (total lm_mass (mp_lumped_mass owt)) (\<lambda>c.
             Inr (Num (a + b + c)))))
      else Inr NaN)"

definition transition_piece_mass :: "owt \<Rightarrow> error + flt" where
  "transition_piece_mass owt =
     (if transition_piece owt \<noteq> None
      then ebind (total mass_t (transition_piece owt)) (\<lambda>a.
           ebind (total dm_mass (tp_distributed_mass owt)) (\<lambda>b.
           ebind (total lm_mass (tp_lumped_mass owt)) (\<lambda>c.
           ebind (total dm_mass (grout owt)) (\<lambda>g.
             Inr (Num (a + b + c + g))))))
      else Inr NaN)"

definition tower_mass :: "owt \<Rightarrow> error + flt" where
  "tower_mass owt =
     (if tower owt \<noteq> None
      then ebind (total mass_t (tower owt)) (\<lambda>a.
           ebind (total lm_mass (tw_lumped_mass owt)) (\<lambda>b.
             Inr (Num (a + b))))
      else Inr NaN)"

definition height_total :: "can_row list option \<Rightarrow> flt" where
  "height_total df =
     (case df of None \<Rightarrow> NaN | Some rows \<Rightarrow> Num (col_sum (map height_m rows)))"

definition turbine_summary :: "owts \<Rightarrow> string \<Rightarrow> error + turbine_row" where
  "turbine_summary f turb =
     ebind (lookup (fl_water_depth f) turb) (\<lambda>wd.
     ebind (pile_toe_of f turb) (\<lambda>toe.
     ebind (lookup (fl_pile_head f) turb) (\<lambda>ph.
     ebind (lookup (fl_tower_base f) turb) (\<lambda>tb.
     ebind (lookup (owts_dict f) turb) (\<lambda>owt.
     ebind (monopile_mass owt) (\<lambda>mp_mass.
     ebind (transition_piece_mass owt) (\<lambda>tp_mass.
     ebind (tower_mass owt) (\<lambda>tw_mass.
       Inr \<lparr>tr_name = turb,
            tr_water_depth = round_dec 2 wd,
            tr_monopile_toe = round_dec 2 (opt_flt toe),
            tr_monopile_head = round_dec 2 (opt_flt ph),
            tr_tower_base = round_dec 2 (opt_flt tb),
            tr_monopile_height = round_dec 2 (height_total (monopile owt)),
            tr_monopile_mass = round_dec 2 mp_mass,
            tr_transition_piece_height = round_dec 2 (height_total (transition_piece owt)),
            tr_transition_piece_mass = round_dec 2 tp_mass,
            tr_tower_height = round_dec 2 (height_total (tower owt)),
            tr_tower_mass = round_dec 2 tw_mass,
            tr_rna_mass =
              round_dec 2 (case rna owt of None \<Rightarrow> NaN
                           | Some rows \<Rightarrow> Num (col_sum (map rna_mass rows)))\<rparr>))))))))"

definition assembly_turbine :: "owts \<Rightarrow> error option \<times> owts" where
  "assembly_turbine f =
     (case collect (turbine_summary f) (map fst (owts_dict f)) of
        Inl e \<Rightarrow> (Some e, f)
      | Inr df_list \<Rightarrow> (None, f\<lparr>all_turbines := Frame (Some df_list)\<rparr>))"

text \<open>
  \<^verbatim>\<open>OWTs.process_structures\<close>.  After the loop the list of pile toes is zipped with the
  turbine titles; the loop has raised before if the slot was a dictionary already and
  there is a turbine, so a dictionary can only be met here with no turbine at all.
\<close>

definition zip_pile_toe :: "owts \<Rightarrow> error option \<times> owts" where
  "zip_pile_toe f =
     (None, f\<lparr>fl_pile_toe :=
                ToeDict (dict_zip (map fst (owts_dict f))
                           (case fl_pile_toe f of ToeList l \<Rightarrow> l | ToeDict _ \<Rightarrow> []))\<rparr>)"

definition process_structures :: "owts \<Rightarrow> error option \<times> owts" where
  "process_structures f0 =
     (if fl_init f0 then (None, f0)
      else (let f = f0\<lparr>fl_init := True\<rparr>
            in run [process_each (map fst (owts_dict f)), zip_pile_toe, concat_list,
                    assembly_turbine] f))"

text \<open>\<^verbatim>\<open>OWTs.__getattribute__\<close>, on the attributes of the three lists and the flag.\<close>

datatype fleet_value =
    FBool bool
  | FPileToe toe_slot
  | FRna "rna_row slot"
  | FCans "can_row slot"
  | FLumped "lump_row slot"
  | FDistributed "dist_row slot"
  | FTurbines "turbine_row slot"

definition fleet_object_getattribute :: "owts \<Rightarrow> string \<Rightarrow> error + fleet_value" where
  "fleet_object_getattribute f name =
     (if name = ''_init'' then Inr (FBool (fl_init f))
      else if name = ''pile_toe'' then Inr (FPileToe (fl_pile_toe f))
      else if name = ''rna'' then Inr (FRna (fl_rna f))
      else if name = ''tower'' then Inr (FCans (fl_tower f))
      else if name = ''transition_piece'' then Inr (FCans (fl_transition_piece f))
      else if name = ''monopile'' then Inr (FCans (fl_monopile f))
      else if name = ''tw_lumped_mass'' then Inr (FLumped (fl_tw_lumped_mass f))
      else if name = ''tp_lumped_mass'' then Inr (FLumped (fl_tp_lumped_mass f))
      else if name = ''mp_lumped_mass'' then Inr (FLumped (fl_mp_lumped_mass f))
      else if name = ''tp_distributed_mass'' then Inr (FDistributed (fl_tp_distributed_mass f))
      else if name = ''mp_distributed_mass'' then Inr (FDistributed (fl_mp_distributed_mass f))
      else if name = ''grout'' then Inr (FDistributed (fl_grout f))
      else if name = ''full_structure'' then Inr (FCans (fl_full_structure f))
      else if name = ''tp_skirt'' then Inr (FCans (fl_tp_skirt f))
      else if name = ''substructure'' then Inr (FCans (fl_substructure f))
      else if name = ''all_tubular_structures'' then Inr (FCans (all_tubular_structures f))
      else if name = ''all_distributed_mass'' then Inr (FDistributed (all_distributed_mass f))
      else if name = ''all_lumped_mass'' then Inr (FLumped (all_lumped_mass f))
      else if name = ''all_turbines'' then Inr (FTurbines (all_turbines f))
      else Inl (AttributeError name))"

definition owts_getattribute ::
    "owts \<Rightarrow> string \<Rightarrow> (warning list \<times> (error + fleet_value)) \<times> owts" where
  "owts_getattribute f name =
     (((if name \<in> set (ATTR_PROC @ ATTR_SPEC @ ATTR_FULL) \<and> \<not> fl_init f
        then [AccessedBeforeProcessing name ''process_structures()'']
        else []),
       fleet_object_getattribute f name), f)"

subsection \<open>Tables and states of the examples\<close>

text \<open>
  A can given by its label, its two elevations, its two diameters, its wall thickness, its
  volume and its mass, with \<^verbatim>\<open>rho [t/m]\<close> 1 as in the doctests; the columns the doctest
  tables do not have are \<^verbatim>\<open>nan\<close>.
\<close>

definition can ::
    "string \<Rightarrow> real \<Rightarrow> real \<Rightarrow> real \<Rightarrow> real \<Rightarrow> real \<Rightarrow> real \<Rightarrow> real \<Rightarrow> can_row" where
  "can l f t d1 d2 w v m =
     \<lparr>label = l, elev_from = Num f, elev_to = Num t, height_m = NaN, diam_from = Num d1,
      diam_to = Num d2, volume_m3 = Num v, wall_thickness_mm = Num w,
      youngs_modulus_gpa = NaN, poissons_ratio = NaN, mass_t = Num m, rho = Num 1,
      subassembly = None\<rparr>"

text \<open>The volume of the wall of a frustum of height \<open>h\<close>, outer radii \<open>r1\<close>, \<open>r2\<close> and thickness \<open>t\<close>.\<close>

definition can_vol :: "real \<Rightarrow> real \<Rightarrow> real \<Rightarrow> real \<Rightarrow> real" where
  "can_vol h r1 r2 t = pi * h * t * (r1 + r2 - t)"

text \<open>An object on which nothing has been processed, without subassemblies.\<close>

definition blank_owt :: owt where
  "blank_owt =
     \<lparr>init_proc = False, init_spec_part = False, init_spec_full = False,
      sub_assemblies = [],
      tw_sub_assemblies = None, tp_sub_assemblies = None, mp_sub_assemblies = None,
      tower_base = None, pile_head = None, water_depth = Num 30, pile_toe = None,
      rna = None, tower = None, transition_piece = None, monopile = None,
      tw_lumped_mass = None, tp_lumped_mass = None, mp_lumped_mass = None,
      tp_distributed_mass = None, mp_distributed_mass = None, grout = None,
      full_structure = None, tp_skirt = None, substructure = None\<rparr>"

text \<open>The tables of the doctest of \<^verbatim>\<open>assembly_tp_mp\<close>.\<close>

definition doctest_tp :: "can_row list" where
  "doctest_tp = [can ''0'' 6 8 6 6 10 5 10, can ''1'' 0 4 6 6 10 5 10]"

definition doctest_mp :: "can_row list" where
  "doctest_mp = [can ''0'' 0 (- 10) 6 6 10 5 10]"

definition doctest_owt :: owt where
  "doctest_owt = blank_owt\<lparr>transition_piece := Some doctest_tp, monopile := Some doctest_mp,
                            pile_head := Some (Num 5)\<rparr>"

text \<open>The same turbine with a transition piece that has no can below the pile head.\<close>

definition no_skirt_owt :: owt where
  "no_skirt_owt = blank_owt\<lparr>transition_piece := Some [can ''0'' 6 8 6 6 10 5 10],
                             monopile := Some doctest_mp, pile_head := Some (Num 5)\<rparr>"

text \<open>
  A transition piece of three cylindrical cans whose second can ends at the pile head 5.0
  (a bolted joint), with one can below it.
\<close>

definition bolted_tp :: "can_row list" where
  "bolted_tp = [can ''a'' 10 8 6 6 10 5 10, can ''b'' 8 5 6 6 10 5 10,
                can ''c'' 5 2 6 6 10 5 10]"

definition bolted_owt :: owt where
  "bolted_owt = blank_owt\<lparr>transition_piece := Some bolted_tp, monopile := Some doctest_mp,
                           pile_head := Some (Num 5)\<rparr>"


text \<open>A fleet of one turbine on which nothing has been processed.\<close>

definition blank_fleet :: owts where
  "blank_fleet =
     \<lparr>owts_dict = [(''T01'', blank_owt)], fl_init = False,
      fl_sub_assemblies = [(''T01'', [])], fl_tower_base = [(''T01'', None)],
      fl_pile_head = [(''T01'', None)], fl_water_depth = [(''T01'', Num 30)],
      fl_tw_sub_assemblies = None, fl_tp_sub_assemblies = None, fl_mp_sub_assemblies = None,
      fl_pile_toe = ToeList [],
      fl_rna = Acc [], fl_tower = Acc [], fl_transition_piece = Acc [],
      fl_monopile = Acc [], fl_tw_lumped_mass = Acc [],
      fl_tp_lumped_mass = Acc [], fl_mp_lumped_mass = Acc [],
      fl_tp_distributed_mass = Acc [], fl_mp_distributed_mass = Acc [],
      fl_grout = Acc [], fl_full_structure = Acc [], fl_tp_skirt = Acc [],
      fl_substructure = Acc [], all_tubular_structures = Acc [],
      all_distributed_mass = Acc [], all_lumped_mass = Acc [],
      all_turbines = Acc []\<rparr>"

text \<open>The same fleet while it collects: one tower table gathered, nothing concatenated yet.\<close>

definition partial_fleet :: owts where
  "partial_fleet = blank_fleet\<lparr>fl_tower := Acc [Some doctest_tp]\<rparr>"

text \<open>
  The warnings of the three branches of \<^verbatim>\<open>OWT.__getattribute__\<close> and of the branch of
  \<^verbatim>\<open>OWTs.__getattribute__\<close>, as functions of the flags alone: for a name of \<^verbatim>\<open>ATTR_PROC\<close>,
  for a name of \<^verbatim>\<open>ATTR_SPEC\<close>, and for a name of the three lists read on the fleet.
\<close>

definition proc_warning :: "owt \<Rightarrow> string \<Rightarrow> warning list" where
  "proc_warning s name =
     (if init_proc s then [] else [AccessedBeforeProcessing name ''process_structure()''])"

definition spec_warning :: "owt \<Rightarrow> string \<Rightarrow> warning list" where
  "spec_warning s name =
     (if \<not> init_spec_part s then [AccessedBeforeProcessing name ''assembly_tp_mp()'']
      else if \<not> init_spec_full s
      then [AccessedBeforeProcessing name ''assembly_full_structure()'']
      else [])"

definition fleet_warning :: "owts \<Rightarrow> string \<Rightarrow> warning list" where
  "fleet_warning f name =
     (if fl_init f then [] else [AccessedBeforeProcessing name ''process_structures()''])"

section \<open>Theorems\<close>

lemma type_loop_cond:
  "type_loop j cond =
     (case j ''bottom_outer_diameter'' of Some (Some (Num a)) \<Rightarrow> Inr tubular_section | _ \<Rightarrow>
      case j ''mass'' of Some (Some (Num a)) \<Rightarrow> Inr lumped_mass | _ \<Rightarrow>
      case j ''mass_distribution'' of Some (Some (Num a)) \<Rightarrow> Inr distributed_mass | _ \<Rightarrow>
        Inl (ValueError ''Could not find supported building block type.''))"
  by (simp add: cond_def split: option.splits flt.splits)


lemma not_isnan_iff: "(\<not> isnan v) = (\<exists>r. v = Num r)"
  by (cases v) auto

lemma present_iff: "present j k = (\<exists>r. j k = Some (Some (Num r)))"
  by (auto simp: present_def not_isnan_iff split: option.splits)

lemma tubular_iff:
  "bb_type_of b = Inr tubular_section \<longleftrightarrow> present (json b) ''bottom_outer_diameter''"
  unfolding bb_type_of_def type_loop_cond present_def
  by (simp split: option.splits flt.splits)

subsection \<open>Classification of a building block\<close>

text \<open>
  C1.  \<^verbatim>\<open>BuildingBlock.type\<close> is a total function of the raw record: it answers
  \<open>tubular_section\<close> when the bottom outer diameter is present, else \<open>lumped_mass\<close> when the
  mass is present, else \<open>distributed_mass\<close> when the mass distribution is present, and
  raises the classification error when none of the three is present.
\<close>

theorem bb_type_total:
  "bb_type_of b =
     (if present (json b) ''bottom_outer_diameter'' then Inr tubular_section
      else if present (json b) ''mass'' then Inr lumped_mass
      else if present (json b) ''mass_distribution'' then Inr distributed_mass
      else Inl (ValueError ''Could not find supported building block type.''))"
  unfolding bb_type_of_def type_loop_cond present_def
  by (simp split: option.splits flt.splits)

theorem bb_type_total_witness: "bb_type_of doctest_bb = Inr lumped_mass"
  using bb_type_total [of doctest_bb]
  by (simp add: doctest_bb_def doctest_json_def present_def)

subsection \<open>Volume of a tubular section\<close>

lemma calc_cone_volume_Num [simp]:
  "calc_cone_volume (Num a) (Num b) (Num h) = Num (cone_volume a b h)"
  by (simp add: calc_cone_volume_def cone_volume_def fmul_def fadd_def power2_eq_square)

lemma cone_diff:
  "cone_volume rb rt h - cone_volume (rb - t) (rt - t) h = pi * h * t * (rb + rt - t)"
  by (simp add: cone_volume_def power2_eq_square algebra_simps)

lemma volume_cones_Num:
  assumes "j ''bottom_outer_diameter'' = Some (Some (Num bod))"
      and "j ''top_outer_diameter'' = Some (Some (Num tod))"
      and "j ''wall_thickness'' = Some (Some (Num wt))"
      and "j ''height'' = Some (Some (Num h))"
  shows "volume_cones j =
           Inr (Num (cone_volume (bod / 2) (tod / 2) h),
                Num (cone_volume (bod / 2 - wt) (tod / 2 - wt) h))"
  using assms by (simp add: volume_cones_def operand_def fsub_def)

lemma volume_tubular_eq:
  assumes "json b ''bottom_outer_diameter'' = Some (Some (Num bod))"
      and "json b ''top_outer_diameter'' = Some (Some (Num tod))"
      and "json b ''wall_thickness'' = Some (Some (Num wt))"
  shows "volume b =
           (case bb_height b of
              None \<Rightarrow> Inl (ValueError ''Height data is missing.'')
            | Some NaN \<Rightarrow> Inr (Some NaN)
            | Some (Num h) \<Rightarrow>
                if h = 0 then Inl (ValueError ''Height data is missing.'')
                else Inr (Some (Num ((cone_volume (bod / 2) (tod / 2) h
                                      - cone_volume (bod / 2 - wt) (tod / 2 - wt) h)
                                     / 1000000000))))"
proof -
  have t: "bb_type_of b = Inr tubular_section"
    using assms(1) by (simp add: tubular_iff present_def)
  show ?thesis
  proof (cases "bb_height b")
    case None
    then show ?thesis by (simp add: volume_def t)
  next
    case (Some v)
    then have hj: "json b ''height'' = Some (Some v)"
      by (auto simp: bb_height_def split: option.splits)
    show ?thesis
    proof (cases v)
      case NaN
      with Some hj assms show ?thesis
        by (simp add: volume_def t volume_cones_def operand_def calc_cone_volume_def
              fmul_def fsub_def)
    next
      case (Num h)
      with Some hj assms show ?thesis
        by (simp add: volume_def t volume_cones_Num fsub_def)
    qed
  qed
qed

lemma tube_fields:
  "json (tube bod tod wt h) ''bottom_outer_diameter'' = Some (Some (Num bod))"
  "json (tube bod tod wt h) ''top_outer_diameter'' = Some (Some (Num tod))"
  "json (tube bod tod wt h) ''wall_thickness'' = Some (Some (Num wt))"
  "json (tube bod tod wt h) ''height'' = Some (Some (Num h))"
  "bb_height (tube bod tod wt h) = Some (Num h)"
  by (simp_all add: tube_def tube_json_def bb_height_def)

text \<open>
  C4 (as stated, refuted).  The claim lets every height that is not \<open>> 0\<close> raise the
  height-missing error.  The guard of the source is the truth value of the height, so a
  negative height passes it: the tubular section of diameters 6000, wall thickness 10 and
  height \<open>-1000\<close> has a volume, a negative one.
\<close>

theorem volume_negative_height_counterexample:
  "bb_type_of (tube 6000 6000 10 (- 1000)) = Inr tubular_section
   \<and> bb_height (tube 6000 6000 10 (- 1000)) = Some (Num (- 1000))
   \<and> \<not> (0 < (- 1000 :: real))
   \<and> volume (tube 6000 6000 10 (- 1000)) = Inr (Some (Num (- (pi * 599 / 10000))))"
proof -
  have "volume (tube 6000 6000 10 (- 1000)) = Inr (Some (Num (- (pi * 599 / 10000))))"
    using volume_tubular_eq [of "tube 6000 6000 10 (- 1000)" 6000 6000 10]
          cone_diff [of 3000 3000 "- 1000" 10]
    by (simp add: tube_fields)
  then show ?thesis
    by (simp add: tubular_iff present_def tube_fields)
qed

text \<open>
  C4 (amended).  For a tubular section whose top outer diameter and wall thickness are
  numbers, \<^verbatim>\<open>BuildingBlock.volume\<close> is the outer frustum volume minus the inner one, divided
  by \<open>10\<^sup>9\<close>, whenever the height is a number other than zero (a negative height included);
  the radii are the halved outer diameters, the inner ones less the wall thickness.  It
  raises the height-missing error exactly when the height is absent, \<^verbatim>\<open>None\<close> or zero, and
  a \<^verbatim>\<open>nan\<close> height gives \<^verbatim>\<open>nan\<close>.
\<close>

theorem volume_tubular_section:
  assumes "json b ''bottom_outer_diameter'' = Some (Some (Num bod))"
      and "json b ''top_outer_diameter'' = Some (Some (Num tod))"
      and "json b ''wall_thickness'' = Some (Some (Num wt))"
  shows "bb_type_of b = Inr tubular_section
         \<and> volume b =
           (case bb_height b of
              None \<Rightarrow> Inl (ValueError ''Height data is missing.'')
            | Some NaN \<Rightarrow> Inr (Some NaN)
            | Some (Num h) \<Rightarrow>
                if h = 0 then Inl (ValueError ''Height data is missing.'')
                else Inr (Some (Num ((cone_volume (bod / 2) (tod / 2) h
                                      - cone_volume (bod / 2 - wt) (tod / 2 - wt) h)
                                     / 1000000000))))"
  using volume_tubular_eq [OF assms] assms(1) by (simp add: tubular_iff present_def)

theorem volume_tubular_section_witness:
  "volume (tube 6000 6000 10 10000) =
     Inr (Some (Num ((cone_volume 3000 3000 10000 - cone_volume 2990 2990 10000) / 1000000000)))"
  using volume_tubular_section [of "tube 6000 6000 10 10000" 6000 6000 10]
  by (simp add: tube_fields)

text \<open>
  C5 (as stated, refuted).  With height 1 and wall thickness 3, both positive, and both outer
  diameters 2, the inner radii are \<open>-2\<close>: the inner frustum volume \<open>4\<pi>\<close> exceeds the outer
  one \<open>\<pi>\<close> and the volume is negative.
\<close>

theorem volume_thick_wall_counterexample:
  "bb_type_of (tube 2 2 3 1) = Inr tubular_section
   \<and> bb_height (tube 2 2 3 1) = Some (Num 1) \<and> (0::real) < 1 \<and> (0::real) < 3
   \<and> volume_cones (json (tube 2 2 3 1)) = Inr (Num pi, Num (4 * pi))
   \<and> \<not> (4 * pi < pi)
   \<and> volume (tube 2 2 3 1) = Inr (Some (Num (- (3 * pi) / 1000000000)))
   \<and> \<not> ((0::real) \<le> - (3 * pi) / 1000000000)"
proof -
  have c: "volume_cones (json (tube 2 2 3 1)) = Inr (Num pi, Num (4 * pi))"
    using volume_cones_Num [of "json (tube 2 2 3 1)" 2 2 3 1]
    by (simp add: tube_fields cone_volume_def)
  have "volume (tube 2 2 3 1) = Inr (Some (Num (- (3 * pi) / 1000000000)))"
    using volume_tubular_eq [of "tube 2 2 3 1" 2 2 3] cone_diff [of 1 1 1 3]
    by (simp add: tube_fields)
  then show ?thesis
    using c pi_gt_zero by (simp add: tubular_iff present_def tube_fields not_le)
qed

text \<open>
  The outer frustum exceeds the inner one exactly when the wall thickness is below the sum
  of the two outer radii.
\<close>

lemma outer_gt_inner_iff:
  assumes "0 < h" "0 < t"
  shows "cone_volume (rb - t) (rt - t) h < cone_volume rb rt h \<longleftrightarrow> t < rb + rt"
proof -
  have p: "0 < pi * h * t"
    using assms by simp
  have "cone_volume (rb - t) (rt - t) h < cone_volume rb rt h
          \<longleftrightarrow> 0 < pi * h * t * (rb + rt - t)"
    using cone_diff [of rb rt h t] by linarith
  also have "\<dots> \<longleftrightarrow> 0 < rb + rt - t"
    using p by (metis mult_pos_pos zero_less_mult_pos)
  also have "\<dots> \<longleftrightarrow> t < rb + rt"
    by auto
  finally show ?thesis .
qed

text \<open>
  C5 (amended).  For a tubular section with height \<open>> 0\<close>, wall thickness \<open>> 0\<close> and wall
  thickness below the mean of the two outer diameters, \<^verbatim>\<open>BuildingBlock.volume\<close> returns the
  outer frustum volume minus the inner one, divided by \<open>10\<^sup>9\<close>; and with every float
  operation read as the exact operation on real numbers, the outer frustum volume is
  strictly greater than the inner one and the volume is non-negative.

  The two inequalities are statements about exact arithmetic, proved from the identity
  \<open>outer - inner = \<pi> h t (r\<^sub>b + r\<^sub>t - t)\<close> of the real field.  Rounding is not modelled, and
  they do not carry over to \<^verbatim>\<open>float64\<close>: with both diameters 6000, height 10000 and wall
  thickness \<^verbatim>\<open>1e-13\<close> the two rounded frustum volumes are equal, and with diameters
  5765.1 and 1689.94, wall thickness 3727.52 and height 6823 the rounded difference is
  negative, of the size of one rounding error.
\<close>

theorem volume_outer_exceeds_inner:
  assumes "json b ''bottom_outer_diameter'' = Some (Some (Num bod))"
      and "json b ''top_outer_diameter'' = Some (Some (Num tod))"
      and "json b ''wall_thickness'' = Some (Some (Num wt))"
      and "json b ''height'' = Some (Some (Num h))"
      and "0 < h" and "0 < wt" and "wt < (bod + tod) / 2"
  shows "bb_type_of b = Inr tubular_section
         \<and> volume_cones (json b) =
             Inr (Num (cone_volume (bod / 2) (tod / 2) h),
                  Num (cone_volume (bod / 2 - wt) (tod / 2 - wt) h))
         \<and> volume b =
             Inr (Some (Num ((cone_volume (bod / 2) (tod / 2) h
                              - cone_volume (bod / 2 - wt) (tod / 2 - wt) h) / 1000000000)))
         \<and> cone_volume (bod / 2 - wt) (tod / 2 - wt) h < cone_volume (bod / 2) (tod / 2) h
         \<and> 0 \<le> (cone_volume (bod / 2) (tod / 2) h
                  - cone_volume (bod / 2 - wt) (tod / 2 - wt) h) / 1000000000"
proof -
  have t: "bb_type_of b = Inr tubular_section"
    using assms(1) by (simp add: tubular_iff present_def)
  have hb: "bb_height b = Some (Num h)"
    using assms(4) by (simp add: bb_height_def)
  have pos: "0 < pi * h * wt * (bod / 2 + tod / 2 - wt)"
    using assms(5-7) by simp
  have lt: "cone_volume (bod / 2 - wt) (tod / 2 - wt) h < cone_volume (bod / 2) (tod / 2) h"
    using pos cone_diff [of "bod / 2" "tod / 2" h wt] by linarith
  have v: "volume b =
             Inr (Some (Num ((cone_volume (bod / 2) (tod / 2) h
                              - cone_volume (bod / 2 - wt) (tod / 2 - wt) h) / 1000000000)))"
    using volume_tubular_eq [OF assms(1-3)] hb assms(5) by simp
  show ?thesis
    using t lt v volume_cones_Num [OF assms(1-4)] by simp
qed

theorem volume_outer_exceeds_inner_witness:
  "volume (tube 6000 5000 10 10000) =
     Inr (Some (Num ((cone_volume 3000 2500 10000 - cone_volume 2990 2490 10000)
                     / 1000000000)))
   \<and> cone_volume 2990 2490 10000 < cone_volume 3000 2500 10000
   \<and> 0 \<le> (cone_volume 3000 2500 10000 - cone_volume 2990 2490 10000) / 1000000000"
  using volume_outer_exceeds_inner [of "tube 6000 5000 10 10000" 6000 5000 10 10000]
  by (simp add: tube_fields)


subsection \<open>Truncation of a can\<close>

lemma frustum_diff:
  "1 / 3 * pi * (r1 * r1 + r1 * r2 + r2 * r2) * h
     - 1 / 3 * pi * ((r1 - t) * (r1 - t) + (r1 - t) * (r2 - t) + (r2 - t) * (r2 - t)) * h
   = can_vol h r1 r2 t"
  unfolding can_vol_def by algebra

lemma can_adjust_Num:
  assumes "mass_t row = Num m" "volume_m3 row = Num v" "elev_from row = Num f"
    "elev_to row = Num t" "diam_from row = Num d1" "diam_to row = Num d2"
    "wall_thickness_mm row = Num w" "v \<noteq> 0" "f \<noteq> t"
  shows "can_adjust_properties row =
     \<lparr>cp_height = Num (f - t),
      cp_volume = Num (can_vol (f - t) (d1 / 2) (d2 / 2) (w * (1 / 1000))),
      cp_mass = Num (can_vol (f - t) (d1 / 2) (d2 / 2) (w * (1 / 1000)) * (m / v)),
      cp_rho = Num (can_vol (f - t) (d1 / 2) (d2 / 2) (w * (1 / 1000)) * (m / v) / (f - t))\<rparr>"
  using assms frustum_diff [of "d1 / 2" "d2 / 2" "f - t" "w * (1 / 1000)"]
  by (simp add: can_adjust_properties_def Let_def fmul_def fsub_def fadd_def)

lemma set_loc_snoc:
  "label y = l \<Longrightarrow> l \<notin> label ` set xs \<Longrightarrow> set_loc l f (xs @ [y]) = xs @ [f y]"
  by (induction xs) (auto simp: set_loc_def)

lemma set_loc_cons:
  "label y = l \<Longrightarrow> l \<notin> label ` set xs \<Longrightarrow> set_loc l f (y # xs) = f y # xs"
  by (induction xs) (auto simp: set_loc_def)

lemma can_modification_bottom:
  assumes "df \<noteq> []" "distinct (map label df)"
  shows "can_modification df (Some a) ''bottom'' = Inr (butlast df @ [cut_can True a (last df)])"
proof -
  obtain xs x where df: "df = xs @ [x]"
    using assms(1) by (meson rev_exhaust)
  have d: "label x \<notin> label ` set xs"
    using assms(2) unfolding df by auto
  show ?thesis
    unfolding can_modification_def Let_def iloc_def df
    using d by (simp add: set_loc_snoc cut_can_def Let_def)
qed

lemma can_modification_top:
  assumes "df \<noteq> []" "distinct (map label df)"
  shows "can_modification df (Some a) ''top'' = Inr (cut_can False a (hd df) # tl df)"
proof -
  obtain x xs where df: "df = x # xs"
    using assms(1) by (cases df) auto
  have d: "label x \<notin> label ` set xs"
    using assms(2) unfolding df by auto
  show ?thesis
    unfolding can_modification_def Let_def iloc_def df
    using d by (simp add: set_loc_cons cut_can_def Let_def)
qed

lemma cut_can_elev:
  "elev_to (cut_can True a r) = a" "elev_from (cut_can False a r) = a"
  "elev_from (cut_can True a r) = elev_from r" "elev_to (cut_can False a r) = elev_to r"
  "label (cut_can b a r) = label r"
  by (simp_all add: cut_can_def Let_def)


lemma np_interp2_Num:
  "\<exists>d. np_interp2 (Num a) (Num x0, Num x1) (Num y0, Num y1) = Num d"
  by (auto simp: np_interp2_def flt_gt_def flt_ge_def Let_def fsub_def fadd_def fmul_def)

lemma cut_can_Num:
  assumes "mass_t row = Num m" "volume_m3 row = Num v" "elev_from row = Num f"
    "elev_to row = Num t" "diam_from row = Num d1" "diam_to row = Num d2"
    "wall_thickness_mm row = Num w" "v \<noteq> 0"
    and h: "h = (if bottom then f - a else a - t)" "h \<noteq> 0"
  shows "\<exists>V. height_m (cut_can bottom (Num a) row) = Num h
           \<and> volume_m3 (cut_can bottom (Num a) row) = Num V
           \<and> mass_t (cut_can bottom (Num a) row) = Num (V * (m / v))
           \<and> rho (cut_can bottom (Num a) row) = Num (V * (m / v) / h)"
proof (cases bottom)
  case True
  obtain d where d: "np_interp2 (Num a) (Num f, Num a) (Num d1, Num d2) = Num d"
    using np_interp2_Num by blast
  let ?r2 = "row\<lparr>elev_to := Num a, diam_to := Num d\<rparr>"
  have "can_adjust_properties ?r2 =
     \<lparr>cp_height = Num (f - a),
      cp_volume = Num (can_vol (f - a) (d1 / 2) (d / 2) (w * (1 / 1000))),
      cp_mass = Num (can_vol (f - a) (d1 / 2) (d / 2) (w * (1 / 1000)) * (m / v)),
      cp_rho = Num (can_vol (f - a) (d1 / 2) (d / 2) (w * (1 / 1000)) * (m / v) / (f - a))\<rparr>"
    using assms True by (intro can_adjust_Num) auto
  then show ?thesis
    using True assms d by (simp add: cut_can_def Let_def)
next
  case False
  obtain d where d: "np_interp2 (Num a) (Num a, Num t) (Num d1, Num d2) = Num d"
    using np_interp2_Num by blast
  let ?r2 = "row\<lparr>elev_from := Num a, diam_from := Num d\<rparr>"
  have "can_adjust_properties ?r2 =
     \<lparr>cp_height = Num (a - t),
      cp_volume = Num (can_vol (a - t) (d / 2) (d2 / 2) (w * (1 / 1000))),
      cp_mass = Num (can_vol (a - t) (d / 2) (d2 / 2) (w * (1 / 1000)) * (m / v)),
      cp_rho = Num (can_vol (a - t) (d / 2) (d2 / 2) (w * (1 / 1000)) * (m / v) / (a - t))\<rparr>"
    using assms False by (intro can_adjust_Num) auto
  then show ?thesis
    using False assms d by (simp add: cut_can_def Let_def)
qed

lemma can_modification_iloc:
  assumes "df \<noteq> []" "distinct (map label df)"
  shows "\<exists>df'. can_modification df (Some a) (if bottom then ''bottom'' else ''top'') = Inr df'
           \<and> iloc bottom df' = cut_can bottom a (iloc bottom df)"
  using can_modification_bottom [OF assms, of a] can_modification_top [OF assms, of a]
  by (auto simp: iloc_def)

text \<open>
  The mass that \<^verbatim>\<open>can_adjust_properties\<close> returns is the product it computes, and the row
  that \<^verbatim>\<open>can_modification\<close> cuts keeps the mass and the volume of the original row as the
  operands of the density.
\<close>

lemma cut_can_product:
  "mass_t (cut_can bottom a row)
     = fmul (volume_m3 (cut_can bottom a row)) (fdiv (mass_t row) (volume_m3 row))"
  "rho (cut_can bottom a row)
     = fdiv (mass_t (cut_can bottom a row)) (height_m (cut_can bottom a row))"
  by (simp_all add: cut_can_def can_adjust_properties_def Let_def)

lemma can_fields:
  "label (can l f t d1 d2 w v m) = l" "elev_from (can l f t d1 d2 w v m) = Num f"
  "elev_to (can l f t d1 d2 w v m) = Num t" "diam_from (can l f t d1 d2 w v m) = Num d1"
  "diam_to (can l f t d1 d2 w v m) = Num d2" "wall_thickness_mm (can l f t d1 d2 w v m) = Num w"
  "volume_m3 (can l f t d1 d2 w v m) = Num v" "mass_t (can l f t d1 d2 w v m) = Num m"
  by (simp_all add: can_def)

text \<open>
  C3 (amended).  For every can row, the row produced by \<^verbatim>\<open>can_adjust_properties\<close> has as
  its new mass the product, as the code computes it, of the new volume and the density,
  the density being the quotient of the original mass and the original volume; its mass
  per length is the new mass divided by the new height, and its height is the upper
  elevation minus the lower one.  The same two identities hold for the row that
  \<^verbatim>\<open>can_modification\<close> cuts, at the bottom or at the top, in a table that is not empty and
  whose row labels are distinct.

  The identities are between the values of the operations of the source, so they do not
  depend on how the operations round.  Nothing is said of the quotient of the new mass and
  the new volume: it is not a number when the new volume is zero, and otherwise it agrees
  with the density only up to rounding.
\<close>

theorem density_product:
  "cp_mass (can_adjust_properties row)
     = fmul (cp_volume (can_adjust_properties row)) (fdiv (mass_t row) (volume_m3 row))
   \<and> cp_rho (can_adjust_properties row)
     = fdiv (cp_mass (can_adjust_properties row)) (cp_height (can_adjust_properties row))
   \<and> cp_height (can_adjust_properties row) = fsub (elev_from row) (elev_to row)
   \<and> (df \<noteq> [] \<and> distinct (map label df) \<and> iloc bottom df = row \<longrightarrow>
        (\<exists>df'. can_modification df (Some a) (if bottom then ''bottom'' else ''top'') = Inr df'
           \<and> mass_t (iloc bottom df')
               = fmul (volume_m3 (iloc bottom df')) (fdiv (mass_t row) (volume_m3 row))
           \<and> rho (iloc bottom df')
               = fdiv (mass_t (iloc bottom df')) (height_m (iloc bottom df'))))"
proof (intro conjI impI)
  assume a: "df \<noteq> [] \<and> distinct (map label df) \<and> iloc bottom df = row"
  obtain df' where df':
      "can_modification df (Some a) (if bottom then ''bottom'' else ''top'') = Inr df'"
      "iloc bottom df' = cut_can bottom a row"
    using can_modification_iloc [of df a bottom] a by auto
  show "\<exists>df'. can_modification df (Some a) (if bottom then ''bottom'' else ''top'') = Inr df'
            \<and> mass_t (iloc bottom df')
                = fmul (volume_m3 (iloc bottom df')) (fdiv (mass_t row) (volume_m3 row))
            \<and> rho (iloc bottom df')
                = fdiv (mass_t (iloc bottom df')) (height_m (iloc bottom df'))"
    using df' cut_can_product [of bottom a row] by auto
qed (simp_all add: can_adjust_properties_def Let_def)

theorem density_product_witness:
  "cp_mass (can_adjust_properties (can ''A'' 10 0 6 6 10 5 10))
     = fmul (cp_volume (can_adjust_properties (can ''A'' 10 0 6 6 10 5 10))) (Num 2)
   \<and> cp_height (can_adjust_properties (can ''A'' 10 0 6 6 10 5 10)) = Num 10
   \<and> (\<exists>df'. can_modification [can ''A'' 10 0 6 6 10 5 10] (Some (Num 5)) ''bottom'' = Inr df'
         \<and> mass_t (last df') = fmul (volume_m3 (last df')) (Num 2)
         \<and> rho (last df') = fdiv (mass_t (last df')) (height_m (last df')))"
  using density_product [where row = "can ''A'' 10 0 6 6 10 5 10"
          and df = "[can ''A'' 10 0 6 6 10 5 10]" and bottom = True and a = "Num 5"]
  by (simp add: can_fields iloc_def fsub_def)

text \<open>
  In exact arithmetic, that is with every float operation read as the operation on real
  numbers, the quotient of the new mass and the new volume is the original density
  whenever the columns are numbers and the original volume, the new height and the new
  volume are not zero.  The proof cancels the new volume, a law of the real field that the
  rounded operations of \<^verbatim>\<open>float64\<close> do not obey: there the two quotients can differ in the
  last place.
\<close>

lemma density_exact_arithmetic:
  assumes "mass_t row = Num m" "volume_m3 row = Num v" "elev_from row = Num f"
    "elev_to row = Num t" "diam_from row = Num d1" "diam_to row = Num d2"
    "wall_thickness_mm row = Num w"
    and "v \<noteq> 0"
  shows "(f - t \<noteq> 0 \<and> cp_volume (can_adjust_properties row) \<noteq> Num 0 \<longrightarrow>
           (\<exists>m' v'. cp_mass (can_adjust_properties row) = Num m'
              \<and> cp_volume (can_adjust_properties row) = Num v'
              \<and> cp_height (can_adjust_properties row) = Num (f - t)
              \<and> v' \<noteq> 0 \<and> m' / v' = m / v
              \<and> cp_rho (can_adjust_properties row) = Num (m' / (f - t))))
       \<and> (\<forall>df a bottom.
             df \<noteq> [] \<and> distinct (map label df) \<and> iloc bottom df = row
             \<and> (if bottom then f - a else a - t) \<noteq> 0
             \<and> volume_m3 (cut_can bottom (Num a) row) \<noteq> Num 0 \<longrightarrow>
           (\<exists>df' m' v' h'.
              can_modification df (Some (Num a)) (if bottom then ''bottom'' else ''top'') = Inr df'
              \<and> mass_t (iloc bottom df') = Num m' \<and> volume_m3 (iloc bottom df') = Num v'
              \<and> height_m (iloc bottom df') = Num h'
              \<and> v' \<noteq> 0 \<and> m' / v' = m / v \<and> rho (iloc bottom df') = Num (m' / h')))"
proof (intro conjI impI allI)
  assume a: "f - t \<noteq> 0 \<and> cp_volume (can_adjust_properties row) \<noteq> Num 0"
  let ?V = "can_vol (f - t) (d1 / 2) (d2 / 2) (w * (1 / 1000))"
  have eq: "can_adjust_properties row =
     \<lparr>cp_height = Num (f - t), cp_volume = Num ?V, cp_mass = Num (?V * (m / v)),
      cp_rho = Num (?V * (m / v) / (f - t))\<rparr>"
    using assms a by (intro can_adjust_Num) auto
  have nz: "?V \<noteq> 0"
    using a by (simp add: eq)
  show "\<exists>m' v'. cp_mass (can_adjust_properties row) = Num m'
              \<and> cp_volume (can_adjust_properties row) = Num v'
              \<and> cp_height (can_adjust_properties row) = Num (f - t)
              \<and> v' \<noteq> 0 \<and> m' / v' = m / v
              \<and> cp_rho (can_adjust_properties row) = Num (m' / (f - t))"
    using nz assms(8) by (simp add: eq)
next
  fix df a bottom
  assume a: "df \<noteq> [] \<and> distinct (map label df) \<and> iloc bottom df = row
             \<and> (if bottom then f - a else a - t) \<noteq> 0
             \<and> volume_m3 (cut_can bottom (Num a) row) \<noteq> Num 0"
  obtain df' where df': "can_modification df (Some (Num a)) (if bottom then ''bottom'' else ''top'') = Inr df'"
      "iloc bottom df' = cut_can bottom (Num a) row"
    using can_modification_iloc [of df "Num a" bottom] a by auto
  obtain V where V: "height_m (cut_can bottom (Num a) row) = Num (if bottom then f - a else a - t)"
      "volume_m3 (cut_can bottom (Num a) row) = Num V"
      "mass_t (cut_can bottom (Num a) row) = Num (V * (m / v))"
      "rho (cut_can bottom (Num a) row) = Num (V * (m / v) / (if bottom then f - a else a - t))"
    using cut_can_Num [OF assms, of "if bottom then f - a else a - t" bottom a] a by blast
  have "V \<noteq> 0"
    using a V(2) by auto
  then show "\<exists>df' m' v' h'.
              can_modification df (Some (Num a)) (if bottom then ''bottom'' else ''top'') = Inr df'
              \<and> mass_t (iloc bottom df') = Num m' \<and> volume_m3 (iloc bottom df') = Num v'
              \<and> height_m (iloc bottom df') = Num h'
              \<and> v' \<noteq> 0 \<and> m' / v' = m / v \<and> rho (iloc bottom df') = Num (m' / h')"
    using df' V assms(8) by auto
qed

text \<open>
  C3 (as stated, refuted).  The can of the doctest with wall thickness 0 has volume 5 and
  recomputed height 10, both non-zero, but the recomputed volume and mass are both 0:
  their quotient is not a number (and is not the original density 2).
\<close>

theorem density_zero_wall_counterexample:
  "volume_m3 (can ''A'' 10 0 6 6 0 5 10) = Num 5 \<and> (5::real) \<noteq> 0
   \<and> cp_height (can_adjust_properties (can ''A'' 10 0 6 6 0 5 10)) = Num 10 \<and> (10::real) \<noteq> 0
   \<and> cp_mass (can_adjust_properties (can ''A'' 10 0 6 6 0 5 10)) = Num 0
   \<and> cp_volume (can_adjust_properties (can ''A'' 10 0 6 6 0 5 10)) = Num 0
   \<and> fdiv (cp_mass (can_adjust_properties (can ''A'' 10 0 6 6 0 5 10)))
          (cp_volume (can_adjust_properties (can ''A'' 10 0 6 6 0 5 10))) = NaN
   \<and> fdiv (mass_t (can ''A'' 10 0 6 6 0 5 10)) (volume_m3 (can ''A'' 10 0 6 6 0 5 10)) = Num 2
   \<and> (0::real) / 0 \<noteq> 10 / 5"
  using can_adjust_Num [of "can ''A'' 10 0 6 6 0 5 10" 10 5 10 0 6 6 0]
  by (simp add: can_fields can_vol_def)


subsection \<open>Assembly of the full structure\<close>

text \<open>
  C8.  \<^verbatim>\<open>assembly_full_structure\<close> raises the sequencing error naming the substructure when
  the substructure is null, and the one naming the tower when the substructure is
  populated and the tower is null; in both cases \<^verbatim>\<open>full_structure\<close> keeps its value.  When
  both are populated \<^verbatim>\<open>full_structure\<close> becomes the tower rows followed by the substructure
  rows.
\<close>

theorem full_structure_prerequisites:
  "(substructure s = None \<longrightarrow>
      assembly_full_structure s =
        (Some (TypeError ''Substructure needs to be processed before!''),
         s\<lparr>init_spec_full := True\<rparr>))
   \<and> (substructure s \<noteq> None \<and> tower s = None \<longrightarrow>
      assembly_full_structure s =
        (Some (TypeError ''Tower needs to be processed before!''),
         s\<lparr>init_spec_full := True\<rparr>))
   \<and> (\<forall>sub tw. substructure s = Some sub \<and> tower s = Some tw \<longrightarrow>
      assembly_full_structure s =
        (None, s\<lparr>init_spec_full := True, full_structure := Some (tw @ sub)\<rparr>))
   \<and> (fst (assembly_full_structure s) \<noteq> None \<longrightarrow>
        full_structure (snd (assembly_full_structure s)) = full_structure s)"
  by (auto simp: assembly_full_structure_def Let_def split: option.splits)

theorem full_structure_prerequisites_witness:
  "assembly_full_structure blank_owt =
     (Some (TypeError ''Substructure needs to be processed before!''),
      blank_owt\<lparr>init_spec_full := True\<rparr>)
   \<and> full_structure (snd (assembly_full_structure blank_owt)) = None
   \<and> assembly_full_structure (blank_owt\<lparr>substructure := Some doctest_mp\<rparr>) =
     (Some (TypeError ''Tower needs to be processed before!''),
      blank_owt\<lparr>substructure := Some doctest_mp, init_spec_full := True\<rparr>)
   \<and> assembly_full_structure
        (blank_owt\<lparr>substructure := Some doctest_mp, tower := Some doctest_tp\<rparr>) =
     (None, blank_owt\<lparr>substructure := Some doctest_mp, tower := Some doctest_tp,
                      init_spec_full := True,
                      full_structure := Some (doctest_tp @ doctest_mp)\<rparr>)"
  using full_structure_prerequisites [of blank_owt]
    full_structure_prerequisites [of "blank_owt\<lparr>substructure := Some doctest_mp\<rparr>"]
    full_structure_prerequisites
      [of "blank_owt\<lparr>substructure := Some doctest_mp, tower := Some doctest_tp\<rparr>"]
  by (simp add: blank_owt_def)


subsection \<open>Joining the transition piece and the monopile\<close>

text \<open>
  C2 (amended).  For a turbine whose transition piece and monopile tables are populated
  and whose pile head is a number, when the transition piece has distinct row labels, at
  least one row with \<^verbatim>\<open>Elevation from\<close> above the pile head and at least one row with
  \<^verbatim>\<open>Elevation to\<close> below it, and the first and the last of the rows kept agree on whether
  their \<^verbatim>\<open>Elevation to\<close> differs from the pile head: \<^verbatim>\<open>assembly_tp_mp\<close> keeps the rows above
  the pile head, leaves them as they are when the last one already ends at the pile head
  and otherwise cuts the last one at the pile head with \<^verbatim>\<open>can_modification\<close>; the result
  followed by the monopile is the substructure; the rows below the pile head, the first
  one cut from the top at the pile head, are the skirt.
\<close>

theorem assembly_tp_mp_join:
  assumes "transition_piece s = Some tp" and "monopile s = Some mp"
    and "pile_head s = Some (Num ph)"
    and "kept = filter (\<lambda>r. flt_gt (elev_from r) (Num ph)) tp"
    and "skirt = filter (\<lambda>r. flt_lt (elev_to r) (Num ph)) tp"
    and "kept \<noteq> []" and "skirt \<noteq> []" and "distinct (map label tp)"
    and "flt_ne (elev_to (hd kept)) (Num ph) = flt_ne (elev_to (last kept)) (Num ph)"
  shows "assembly_tp_mp s =
           (None, s\<lparr>init_spec_part := True,
                    substructure :=
                      Some ((if flt_ne (elev_to (last kept)) (Num ph)
                             then butlast kept @ [cut_can True (Num ph) (last kept)]
                             else kept) @ mp),
                    tp_skirt := Some (cut_can False (Num ph) (hd skirt) # tl skirt)\<rparr>)
         \<and> elev_to (cut_can True (Num ph) (last kept)) = Num ph
         \<and> elev_from (cut_can False (Num ph) (hd skirt)) = Num ph"
proof -
  have da: "distinct (map label kept)" and db: "distinct (map label skirt)"
    using assms(4,5,8) by (simp_all add: distinct_map_filter)
  have one: "\<not> 1 < length (filter (\<lambda>r. label r = label (hd kept)) kept)"
  proof -
    obtain x xs where a: "kept = x # xs"
      using assms(6) by (cases kept) auto
    have "label x \<notin> label ` set xs"
      using da unfolding a by auto
    then have "filter (\<lambda>r. label r = label x) xs = []"
      by (induction xs) auto
    then show ?thesis by (simp add: a)
  qed
  show ?thesis
    using assms(1-3,6,7,9) one
      can_modification_bottom [OF assms(6) da, of "Num ph"]
      can_modification_top [OF assms(7) db, of "Num ph"]
    unfolding assembly_tp_mp_def Let_def assms(4,5) [symmetric]
    by (simp add: head_or_nan_def assms(4,5) [symmetric] cut_can_elev)
qed


lemma doctest_cut_bottom:
  "cut_can True (Num 5) (can ''0'' 6 8 6 6 10 5 10) =
     (can ''0'' 6 5 6 6 10 (599 * pi / 10000) (599 * pi / 5000))
       \<lparr>height_m := Num 1, rho := Num (599 * pi / 5000)\<rparr>"
  by (simp add: cut_can_def can_def Let_def np_interp2_def flt_gt_def flt_ge_def
      can_adjust_properties_def fmul_def fsub_def fadd_def algebra_simps)


lemma doctest_cut_top:
  "cut_can False (Num 5) (can ''1'' 0 4 6 6 10 5 10) =
     (can ''1'' 5 4 6 6 10 (599 * pi / 10000) (599 * pi / 5000))
       \<lparr>height_m := Num 1, rho := Num (599 * pi / 5000)\<rparr>"
  by (simp add: cut_can_def can_def Let_def np_interp2_def flt_gt_def flt_ge_def
      can_adjust_properties_def fmul_def fsub_def fadd_def algebra_simps)

theorem assembly_tp_mp_join_witness:
  "assembly_tp_mp doctest_owt =
     (None, doctest_owt\<lparr>init_spec_part := True,
              substructure := Some ([cut_can True (Num 5) (can ''0'' 6 8 6 6 10 5 10)]
                                    @ doctest_mp),
              tp_skirt := Some [cut_can False (Num 5) (can ''1'' 0 4 6 6 10 5 10)]\<rparr>)
   \<and> elev_to (cut_can True (Num 5) (can ''0'' 6 8 6 6 10 5 10)) = Num 5
   \<and> elev_from (cut_can False (Num 5) (can ''1'' 0 4 6 6 10 5 10)) = Num 5"
proof -
  have tp: "transition_piece doctest_owt = Some doctest_tp"
    and mp: "monopile doctest_owt = Some doctest_mp"
    and ph: "pile_head doctest_owt = Some (Num 5)"
    by (simp_all add: doctest_owt_def)
  have k: "[can ''0'' 6 8 6 6 10 5 10] = filter (\<lambda>r. flt_gt (elev_from r) (Num 5)) doctest_tp"
    by (simp add: doctest_tp_def can_fields flt_gt_def)
  have sk: "[can ''1'' 0 4 6 6 10 5 10] = filter (\<lambda>r. flt_lt (elev_to r) (Num 5)) doctest_tp"
    by (simp add: doctest_tp_def can_fields)
  have d: "distinct (map label doctest_tp)"
    by (simp add: doctest_tp_def can_fields)
  have ne: "flt_ne (elev_to (can ''0'' 6 8 6 6 10 5 10)) (Num 5)"
    by (simp add: can_fields flt_ne_def)
  have "assembly_tp_mp doctest_owt =
           (None, doctest_owt\<lparr>init_spec_part := True,
                    substructure :=
                      Some ((if flt_ne (elev_to (last [can ''0'' 6 8 6 6 10 5 10])) (Num 5)
                             then butlast [can ''0'' 6 8 6 6 10 5 10]
                                  @ [cut_can True (Num 5) (last [can ''0'' 6 8 6 6 10 5 10])]
                             else [can ''0'' 6 8 6 6 10 5 10]) @ doctest_mp),
                    tp_skirt := Some (cut_can False (Num 5) (hd [can ''1'' 0 4 6 6 10 5 10])
                                      # tl [can ''1'' 0 4 6 6 10 5 10])\<rparr>)
         \<and> elev_to (cut_can True (Num 5) (last [can ''0'' 6 8 6 6 10 5 10])) = Num 5
         \<and> elev_from (cut_can False (Num 5) (hd [can ''1'' 0 4 6 6 10 5 10])) = Num 5"
    by (rule assembly_tp_mp_join [OF tp mp ph k sk _ _ d]) simp_all
  then show ?thesis
    using ne by simp
qed

text \<open>
  C2 (as stated, refuted).  A turbine whose transition piece and monopile tables are
  populated, with the single transition-piece can of the scenario that lies above the pile
  head 5.0 and no can below it: the selection for the skirt has no row, \<^verbatim>\<open>can_modification\<close>
  raises \<^verbatim>\<open>IndexError\<close> on it and \<^verbatim>\<open>tp_skirt\<close> stays null.
\<close>

theorem assembly_no_skirt_counterexample:
  "transition_piece no_skirt_owt = Some [can ''0'' 6 8 6 6 10 5 10]
   \<and> monopile no_skirt_owt = Some doctest_mp
   \<and> pile_head no_skirt_owt = Some (Num 5)
   \<and> fst (assembly_tp_mp no_skirt_owt) = Some IndexError
   \<and> tp_skirt (snd (assembly_tp_mp no_skirt_owt)) = None"
  using can_modification_bottom [of "[can ''0'' 6 8 6 6 10 5 10]" "Num 5"]
  by (simp add: assembly_tp_mp_def Let_def no_skirt_owt_def blank_owt_def can_fields
      head_or_nan_def flt_gt_def flt_ne_def can_modification_def)

text \<open>
  The test for a bolted joint reads the first of the rows kept while the cut is made in
  the last one.  In \<open>bolted_tp\<close> the last row kept ends at the pile head already, the first
  does not: the last row is passed through \<^verbatim>\<open>can_modification\<close> all the same and its stored
  volume 5 is replaced by the recomputed one.  The amended C2 says nothing about such
  inputs.
\<close>

lemma bolted_row_recomputed:
  "elev_to (can ''b'' 8 5 6 6 10 5 10) = Num 5
   \<and> substructure (snd (assembly_tp_mp bolted_owt)) =
       Some ([can ''a'' 10 8 6 6 10 5 10, cut_can True (Num 5) (can ''b'' 8 5 6 6 10 5 10)]
             @ doctest_mp)
   \<and> volume_m3 (can ''b'' 8 5 6 6 10 5 10) = Num 5
   \<and> volume_m3 (cut_can True (Num 5) (can ''b'' 8 5 6 6 10 5 10)) = Num (1797 * pi / 10000)"
proof -
  have k: "filter (\<lambda>r. flt_gt (elev_from r) (Num 5)) bolted_tp
             = [can ''a'' 10 8 6 6 10 5 10, can ''b'' 8 5 6 6 10 5 10]"
    by (simp add: bolted_tp_def can_fields flt_gt_def)
  have sk: "filter (\<lambda>r. flt_lt (elev_to r) (Num 5)) bolted_tp = [can ''c'' 5 2 6 6 10 5 10]"
    by (simp add: bolted_tp_def can_fields)
  have m: "can_modification [can ''a'' 10 8 6 6 10 5 10, can ''b'' 8 5 6 6 10 5 10]
             (Some (Num 5)) ''bottom''
           = Inr [can ''a'' 10 8 6 6 10 5 10, cut_can True (Num 5) (can ''b'' 8 5 6 6 10 5 10)]"
    using can_modification_bottom
      [of "[can ''a'' 10 8 6 6 10 5 10, can ''b'' 8 5 6 6 10 5 10]" "Num 5"]
    by (simp add: can_fields)
  have t: "can_modification [can ''c'' 5 2 6 6 10 5 10] (Some (Num 5)) ''top''
           = Inr [cut_can False (Num 5) (can ''c'' 5 2 6 6 10 5 10)]"
    using can_modification_top [of "[can ''c'' 5 2 6 6 10 5 10]" "Num 5"]
    by (simp add: can_fields)
  have s: "substructure (snd (assembly_tp_mp bolted_owt)) =
       Some ([can ''a'' 10 8 6 6 10 5 10, cut_can True (Num 5) (can ''b'' 8 5 6 6 10 5 10)]
             @ doctest_mp)"
    by (simp add: assembly_tp_mp_def bolted_owt_def blank_owt_def Let_def head_or_nan_def
        k sk m t can_fields flt_ne_def)
  have v: "volume_m3 (cut_can True (Num 5) (can ''b'' 8 5 6 6 10 5 10)) = Num (1797 * pi / 10000)"
    by (simp add: cut_can_def can_def Let_def np_interp2_def flt_gt_def flt_ge_def
        can_adjust_properties_def fmul_def fsub_def fadd_def algebra_simps)
  show ?thesis
    using s v by (simp add: can_fields)
qed


subsection \<open>Construction of a turbine\<close>









lemma blank_fleet_init: "owts_init [''T01''] [blank_owt] = Inr blank_fleet"
  by (simp add: owts_init_def dict_zip_def blank_fleet_def blank_owt_def Let_def)

subsection \<open>Unknown index strings\<close>

lemma unknown_index_raises:
  "idx \<noteq> ''tw'' \<Longrightarrow> idx \<noteq> ''tp'' \<Longrightarrow> idx \<noteq> ''mp'' \<Longrightarrow>
     set_df_structure idx s = (Inl (ValueError ''Unknown index.''), s)"
  "idx \<noteq> ''TW'' \<Longrightarrow> idx \<noteq> ''TP'' \<Longrightarrow> idx \<noteq> ''MP'' \<Longrightarrow>
     set_df_appurtenances idx s = Inl (ValueError ''Unknown index.'')"
  by (simp_all add: set_df_structure_def set_df_appurtenances_def)

lemma unknown_option_silent:
  "option \<noteq> ''full'' \<Longrightarrow> option \<noteq> ''TW'' \<Longrightarrow> option \<noteq> ''TP'' \<Longrightarrow> option \<noteq> ''MP'' \<Longrightarrow>
     process_structure option s = (None, s\<lparr>init_proc := True\<rparr>)"
  by (simp add: process_structure_def)

text \<open>
  C9 (the code at the failing input).  \<^verbatim>\<open>set_df_structure\<close> and \<^verbatim>\<open>set_df_appurtenances\<close> end
  their chain of tests with \<^verbatim>\<open>raise ValueError("Unknown index.")\<close>; the chain of
  \<^verbatim>\<open>process_structure\<close> has no such branch.  With the option \<^verbatim>\<open>"tower"\<close>, which the docstring
  of \<^verbatim>\<open>process_structure\<close> lists but the code does not test for, the call returns without
  an exception and without a table, having only set \<^verbatim>\<open>_init_proc\<close>; the two sibling
  operations raise on the same string.
\<close>

theorem process_structure_unknown_option:
  "process_structure ''tower'' blank_owt = (None, blank_owt\<lparr>init_proc := True\<rparr>)
   \<and> set_df_structure ''tower'' blank_owt = (Inl (ValueError ''Unknown index.''), blank_owt)
   \<and> set_df_appurtenances ''tower'' blank_owt = Inl (ValueError ''Unknown index.'')"
  by (simp add: unknown_index_raises unknown_option_silent)

subsection \<open>Reading a derived attribute\<close>

text \<open>
  A read of a name of \<^verbatim>\<open>ATTR_PROC\<close> or \<^verbatim>\<open>ATTR_SPEC\<close> on a turbine, or of a name of the three
  lists on the fleet, returns what \<^verbatim>\<open>object.__getattribute__\<close> returns, leaves the object as
  it is, and emits the warnings that the flags decide.
\<close>

lemma owt_read:
  "name \<in> set ATTR_PROC \<Longrightarrow> object_getattribute s name = Inr v \<Longrightarrow>
     owt_getattribute s name = ((proc_warning s name, Inr v), s)"
  "name \<in> set ATTR_SPEC \<Longrightarrow> object_getattribute s name = Inr v \<Longrightarrow>
     owt_getattribute s name = ((spec_warning s name, Inr v), s)"
  unfolding owt_getattribute_def proc_warning_def spec_warning_def ATTR_PROC_def ATTR_SPEC_def
  by auto

lemma fleet_read:
  "name \<in> set (ATTR_PROC @ ATTR_SPEC @ ATTR_FULL) \<Longrightarrow> fleet_object_getattribute f name = Inr v \<Longrightarrow>
     owts_getattribute f name = ((fleet_warning f name, Inr v), f)"
  unfolding owts_getattribute_def fleet_warning_def by auto

text \<open>
  C7 (as stated, refuted).  Each stage sets its flag in its first statement
  (\<^verbatim>\<open>self._init_proc = True\<close> opens \<^verbatim>\<open>process_structure\<close>), before anything can raise.  On a
  turbine without subassemblies \<^verbatim>\<open>process_structure("full")\<close> raises, so the stage has not
  completed and \<^verbatim>\<open>monopile\<close> is still null; the read of \<^verbatim>\<open>monopile\<close> that follows returns
  the null slot and emits no warning.
\<close>

theorem read_after_failed_stage_counterexample:
  "process_structure ''full'' blank_owt =
     (Some (ValueError ''Tower subassembly data not found.''), blank_owt\<lparr>init_proc := True\<rparr>)
   \<and> ''monopile'' \<in> set ATTR_PROC
   \<and> monopile (blank_owt\<lparr>init_proc := True\<rparr>) = None
   \<and> owt_getattribute (blank_owt\<lparr>init_proc := True\<rparr>) ''monopile'' =
       (([], Inr (VCans None)), blank_owt\<lparr>init_proc := True\<rparr>)"
  by (simp add: process_structure_def process_rna_def blank_owt_def ATTR_PROC_def
      ATTR_SPEC_def owt_getattribute_def object_getattribute_def Let_def)

text \<open>
  C7 (amended).  A read of a derived attribute never raises, returns exactly the value
  stored in the slot of that name and leaves all state unchanged, whatever the flags.  It
  emits exactly one warning when the flag of the stage is still false and none otherwise:
  on a turbine \<^verbatim>\<open>_init_proc\<close> for the names of \<^verbatim>\<open>ATTR_PROC\<close> (the warning names
  \<^verbatim>\<open>process_structure()\<close>), \<^verbatim>\<open>_init_spec_part\<close> and then \<^verbatim>\<open>_init_spec_full\<close> for the names of
  \<^verbatim>\<open>ATTR_SPEC\<close> (\<^verbatim>\<open>assembly_tp_mp()\<close>, then \<^verbatim>\<open>assembly_full_structure()\<close>); on the fleet
  \<^verbatim>\<open>_init\<close> for the names of the three lists (\<^verbatim>\<open>process_structures()\<close>).  A flag is true
  as soon as its stage has started, also when the stage raised.
\<close>

theorem read_derived_attribute:
  "owt_getattribute s ''pile_toe'' = ((proc_warning s ''pile_toe'', Inr (VFloat (pile_toe s))), s)
   \<and> owt_getattribute s ''rna'' = ((proc_warning s ''rna'', Inr (VRna (rna s))), s)
   \<and> owt_getattribute s ''tower'' = ((proc_warning s ''tower'', Inr (VCans (tower s))), s)
   \<and> owt_getattribute s ''transition_piece'' =
       ((proc_warning s ''transition_piece'', Inr (VCans (transition_piece s))), s)
   \<and> owt_getattribute s ''monopile'' =
       ((proc_warning s ''monopile'', Inr (VCans (monopile s))), s)
   \<and> owt_getattribute s ''tw_lumped_mass'' =
       ((proc_warning s ''tw_lumped_mass'', Inr (VLumped (tw_lumped_mass s))), s)
   \<and> owt_getattribute s ''tp_lumped_mass'' =
       ((proc_warning s ''tp_lumped_mass'', Inr (VLumped (tp_lumped_mass s))), s)
   \<and> owt_getattribute s ''mp_lumped_mass'' =
       ((proc_warning s ''mp_lumped_mass'', Inr (VLumped (mp_lumped_mass s))), s)
   \<and> owt_getattribute s ''tp_distributed_mass'' =
       ((proc_warning s ''tp_distributed_mass'', Inr (VDistributed (tp_distributed_mass s))), s)
   \<and> owt_getattribute s ''mp_distributed_mass'' =
       ((proc_warning s ''mp_distributed_mass'', Inr (VDistributed (mp_distributed_mass s))), s)
   \<and> owt_getattribute s ''grout'' = ((proc_warning s ''grout'', Inr (VDistributed (grout s))), s)
   \<and> owt_getattribute s ''full_structure'' =
       ((spec_warning s ''full_structure'', Inr (VCans (full_structure s))), s)
   \<and> owt_getattribute s ''tp_skirt'' =
       ((spec_warning s ''tp_skirt'', Inr (VCans (tp_skirt s))), s)
   \<and> owt_getattribute s ''substructure'' =
       ((spec_warning s ''substructure'', Inr (VCans (substructure s))), s)
   \<and> owts_getattribute f ''pile_toe'' =
       ((fleet_warning f ''pile_toe'', Inr (FPileToe (fl_pile_toe f))), f)
   \<and> owts_getattribute f ''rna'' = ((fleet_warning f ''rna'', Inr (FRna (fl_rna f))), f)
   \<and> owts_getattribute f ''tower'' = ((fleet_warning f ''tower'', Inr (FCans (fl_tower f))), f)
   \<and> owts_getattribute f ''transition_piece'' =
       ((fleet_warning f ''transition_piece'', Inr (FCans (fl_transition_piece f))), f)
   \<and> owts_getattribute f ''monopile'' =
       ((fleet_warning f ''monopile'', Inr (FCans (fl_monopile f))), f)
   \<and> owts_getattribute f ''tw_lumped_mass'' =
       ((fleet_warning f ''tw_lumped_mass'', Inr (FLumped (fl_tw_lumped_mass f))), f)
   \<and> owts_getattribute f ''tp_lumped_mass'' =
       ((fleet_warning f ''tp_lumped_mass'', Inr (FLumped (fl_tp_lumped_mass f))), f)
   \<and> owts_getattribute f ''mp_lumped_mass'' =
       ((fleet_warning f ''mp_lumped_mass'', Inr (FLumped (fl_mp_lumped_mass f))), f)
   \<and> owts_getattribute f ''tp_distributed_mass'' =
       ((fleet_warning f ''tp_distributed_mass'',
         Inr (FDistributed (fl_tp_distributed_mass f))), f)
   \<and> owts_getattribute f ''mp_distributed_mass'' =
       ((fleet_warning f ''mp_distributed_mass'',
         Inr (FDistributed (fl_mp_distributed_mass f))), f)
   \<and> owts_getattribute f ''grout'' =
       ((fleet_warning f ''grout'', Inr (FDistributed (fl_grout f))), f)
   \<and> owts_getattribute f ''full_structure'' =
       ((fleet_warning f ''full_structure'', Inr (FCans (fl_full_structure f))), f)
   \<and> owts_getattribute f ''tp_skirt'' =
       ((fleet_warning f ''tp_skirt'', Inr (FCans (fl_tp_skirt f))), f)
   \<and> owts_getattribute f ''substructure'' =
       ((fleet_warning f ''substructure'', Inr (FCans (fl_substructure f))), f)
   \<and> owts_getattribute f ''all_tubular_structures'' =
       ((fleet_warning f ''all_tubular_structures'', Inr (FCans (all_tubular_structures f))), f)
   \<and> owts_getattribute f ''all_distributed_mass'' =
       ((fleet_warning f ''all_distributed_mass'',
         Inr (FDistributed (all_distributed_mass f))), f)
   \<and> owts_getattribute f ''all_lumped_mass'' =
       ((fleet_warning f ''all_lumped_mass'', Inr (FLumped (all_lumped_mass f))), f)
   \<and> owts_getattribute f ''all_turbines'' =
       ((fleet_warning f ''all_turbines'', Inr (FTurbines (all_turbines f))), f)"
  by (intro conjI;
      (rule owt_read fleet_read,
       simp add: ATTR_PROC_def ATTR_SPEC_def ATTR_FULL_def,
       simp add: object_getattribute_def fleet_object_getattribute_def))

theorem read_derived_attribute_witness:
  "owt_getattribute doctest_owt ''transition_piece'' =
     (([AccessedBeforeProcessing ''transition_piece'' ''process_structure()''],
       Inr (VCans (Some doctest_tp))), doctest_owt)
   \<and> owt_getattribute (doctest_owt\<lparr>init_spec_part := True\<rparr>) ''substructure'' =
     (([AccessedBeforeProcessing ''substructure'' ''assembly_full_structure()''],
       Inr (VCans None)), doctest_owt\<lparr>init_spec_part := True\<rparr>)
   \<and> owts_getattribute partial_fleet ''tower'' =
     (([AccessedBeforeProcessing ''tower'' ''process_structures()''],
       Inr (FCans (Acc [Some doctest_tp]))), partial_fleet)
   \<and> owts_getattribute (partial_fleet\<lparr>fl_init := True\<rparr>) ''tower'' =
     (([], Inr (FCans (Acc [Some doctest_tp]))), partial_fleet\<lparr>fl_init := True\<rparr>)"
  using read_derived_attribute [of doctest_owt partial_fleet]
    read_derived_attribute [of "doctest_owt\<lparr>init_spec_part := True\<rparr>"
      "partial_fleet\<lparr>fl_init := True\<rparr>"]
  by (simp add: proc_warning_def spec_warning_def fleet_warning_def doctest_owt_def
      blank_owt_def partial_fleet_def blank_fleet_def)


subsection \<open>Processing the fleet once\<close>

lemma run_fl_init:
  "(\<And>st g. st \<in> set steps \<Longrightarrow> fl_init (snd (st g)) = fl_init g) \<Longrightarrow>
     fl_init (snd (run steps f)) = fl_init f"
proof (induction steps arbitrary: f)
  case Nil
  then show ?case by simp
next
  case (Cons st steps)
  have h: "fl_init (snd (st f)) = fl_init f"
    using Cons.prems by simp
  show ?case
  proof (cases "st f")
    case (Pair r f1)
    with h have f1: "fl_init f1 = fl_init f" by simp
    show ?thesis
    proof (cases r)
      case None
      with Pair f1 Cons.IH [of f1] Cons.prems show ?thesis by simp
    next
      case (Some e)
      with Pair f1 show ?thesis by simp
    qed
  qed
qed

lemma acc_fl_init:
  "(\<And>g f. fl_init (upd g f) = fl_init f) \<Longrightarrow> fl_init (snd (acc m get upd xs f)) = fl_init f"
  by (simp add: acc_def split: sum.splits)

lemma cat_fl_init:
  "(\<And>g f. fl_init (upd g f) = fl_init f) \<Longrightarrow> fl_init (snd (cat get upd f)) = fl_init f"
  by (simp add: cat_def split: sum.splits)

lemma acc_pile_toe_fl_init: "fl_init (snd (acc_pile_toe x f)) = fl_init f"
  by (simp add: acc_pile_toe_def split: toe_slot.splits)

lemma accumulate_fl_init: "fl_init (snd (accumulate w f)) = fl_init f"
  unfolding accumulate_def
  by (rule run_fl_init) (auto simp: acc_fl_init acc_pile_toe_fl_init)

lemma concat_list_fl_init: "fl_init (snd (concat_list f)) = fl_init f"
  unfolding concat_list_def
  by (rule run_fl_init) (auto simp: cat_fl_init)

lemma process_each_fl_init: "fl_init (snd (process_each ks f)) = fl_init f"
proof (induction ks arbitrary: f)
  case Nil
  then show ?case by simp
next
  case (Cons k ks)
  show ?case
  proof (cases "map_of (owts_dict f) k")
    case None
    then show ?thesis by simp
  next
    case (Some w)
    obtain r o1 where p: "process_owt w = (r, o1)" by (cases "process_owt w")
    let ?f = "f\<lparr>owts_dict := AList.update k o1 (owts_dict f)\<rparr>"
    show ?thesis
    proof (cases r)
      case (Some e)
      with p \<open>map_of (owts_dict f) k = Some w\<close> show ?thesis by simp
    next
      case None
      obtain r1 f1 where a: "accumulate o1 ?f = (r1, f1)" by (cases "accumulate o1 ?f")
      have f1: "fl_init f1 = fl_init f"
        using accumulate_fl_init [of o1 ?f] a by simp
      show ?thesis
        using p None a f1 \<open>map_of (owts_dict f) k = Some w\<close> Cons.IH [of f1]
        by (cases r1) simp_all
    qed
  qed
qed

lemma zip_pile_toe_fl_init: "fl_init (snd (zip_pile_toe f)) = fl_init f"
  by (simp add: zip_pile_toe_def)

lemma assembly_turbine_fl_init: "fl_init (snd (assembly_turbine f)) = fl_init f"
  by (simp add: assembly_turbine_def split: sum.splits)

text \<open>
  C6.  After a call of \<^verbatim>\<open>process_structures\<close> the flag \<^verbatim>\<open>_init\<close> is true, and a second call
  returns at once with the object as the first call left it: no turbine is processed
  again and every fleet table, the map of pile toes and the turbines themselves are those
  of the first call.
\<close>

theorem process_structures_idempotent:
  "fl_init (snd (process_structures f))
   \<and> process_structures (snd (process_structures f)) = (None, snd (process_structures f))"
proof -
  have i: "fl_init (snd (process_structures f))"
  proof (cases "fl_init f")
    case True
    then show ?thesis by (simp add: process_structures_def)
  next
    case False
    have "fl_init (snd (run [process_each (map fst (owts_dict (f\<lparr>fl_init := True\<rparr>))),
                             zip_pile_toe, concat_list, assembly_turbine]
                        (f\<lparr>fl_init := True\<rparr>))) = fl_init (f\<lparr>fl_init := True\<rparr>)"
      by (rule run_fl_init)
         (auto simp: process_each_fl_init zip_pile_toe_fl_init concat_list_fl_init
            assembly_turbine_fl_init)
    with False show ?thesis by (simp add: process_structures_def Let_def)
  qed
  then show ?thesis
    by (simp add: process_structures_def [of "snd (process_structures f)"])
qed



lemma blank_process_owt:
  "process_owt blank_owt =
     (None, blank_owt\<lparr>init_spec_part := True, tp_skirt := None, full_structure := None,
                      init_spec_full := True\<rparr>)"
  by (simp add: process_owt_def blank_owt_def extend_dfs_def tag_tables_def tag_table_def
      has_key_def Let_def)

lemma blank_first_call: "fst (process_structures blank_fleet) = None"
  by (simp add: process_structures_def blank_fleet_def
      blank_process_owt [unfolded blank_owt_def] Let_def
      accumulate_def acc_def acc_pile_toe_def slot_extend_def zip_pile_toe_def dict_zip_def
      concat_list_def cat_def slot_concat_def assembly_turbine_def turbine_summary_def
      ebind_def lookup_def pile_toe_of_def monopile_mass_def transition_piece_mass_def
      tower_mass_def blank_owt_def)

theorem process_structures_idempotent_witness:
  "fst (process_structures blank_fleet) = None
   \<and> fl_init (snd (process_structures blank_fleet))
   \<and> process_structures (snd (process_structures blank_fleet))
       = (None, snd (process_structures blank_fleet))"
  using process_structures_idempotent [of blank_fleet] blank_first_call by simp


end
